theory Spec2Isabelle
  imports Complex_Main
begin

section \<open>Python values used by the evaluator\<close>

text \<open>
  The development embeds \<^verbatim>\<open>codes/trainer/eval/audio_diffusion_fid.py\<close>
  (class \<^verbatim>\<open>AudioDiffusionFid\<close>).  Python integers are \<open>int\<close>; an exception is a
  value of type \<open>error\<close> returned on the left of a sum.
\<close>

datatype error =
    KeyError
  | IndexError
  | ZeroDivisionError
  | AttributeError
  | ValueError
  | ExternalError string

text \<open>Python's \<^verbatim>\<open>a // b\<close> on integers: floor division, raising on a zero divisor.\<close>

definition py_floordiv :: "int \<Rightarrow> int \<Rightarrow> error + int" where
  "py_floordiv a b = (if b = 0 then Inl ZeroDivisionError else Inr (a div b))"

text \<open>Python's \<^verbatim>\<open>xs[i]\<close> on a list: a negative index counts from the end, an index
  outside the list raises \<^verbatim>\<open>IndexError\<close>.\<close>

definition py_getitem :: "'a list \<Rightarrow> int \<Rightarrow> error + 'a" where
  "py_getitem xs i =
     (let n = int (length xs);
          j = (if i < 0 then i + n else i)
      in if j < 0 \<or> n \<le> j then Inl IndexError else Inr (xs ! nat j))"

text \<open>Python's \<^verbatim>\<open>list(range(start, stop, step))\<close>.\<close>

definition py_range :: "int \<Rightarrow> int \<Rightarrow> int \<Rightarrow> error + int list" where
  "py_range start stop step =
     (if step = 0 then Inl ValueError
      else if 0 < step then
        Inr (map (\<lambda>k. start + int k * step) [0..<nat ((stop - start + step - 1) div step)])
      else
        Inr (map (\<lambda>k. start + int k * step) [0..<nat ((start - stop - step - 1) div (- step))]))"

text \<open>Python's \<^verbatim>\<open>str(n)\<close> on an integer: its decimal digits, with a minus sign when
  negative.\<close>

definition digit_char :: "nat \<Rightarrow> char" where
  "digit_char d = ''0123456789'' ! d"

function str_nat :: "nat \<Rightarrow> string" where
  "str_nat n = (if n < 10 then [digit_char n] else str_nat (n div 10) @ [digit_char (n mod 10)])"
  by pat_completeness auto
termination
  by (relation "measure id") auto

declare str_nat.simps [simp del]

definition str_int :: "int \<Rightarrow> string" where
  "str_int i = (if i < 0 then CHR ''-'' # str_nat (nat (- i)) else str_nat (nat i))"

text \<open>\<^verbatim>\<open>os.path.join\<close> as \<^verbatim>\<open>posixpath\<close> computes it: a component that starts
  with the separator replaces what came before, otherwise it is appended, after a
  separator unless the path so far is empty or already ends with one.\<close>

definition path_join2 :: "string \<Rightarrow> string \<Rightarrow> string" where
  "path_join2 path b =
     (if b \<noteq> [] \<and> hd b = CHR ''/'' then b
      else if path = [] \<or> last path = CHR ''/'' then path @ b
      else path @ ''/'' @ b)"

definition path_join :: "string \<Rightarrow> string list \<Rightarrow> string" where
  "path_join a p = foldl path_join2 a p"

text \<open>\<^verbatim>\<open>F.pad(codes, (0, k))\<close> on a sequence of discrete codes: constant padding with
  zeros on the right of the last axis; a negative amount crops instead.  A code tensor is
  represented by its last (time) axis; the singleton batch axes that \<^verbatim>\<open>unsqueeze(0)\<close>
  adds to it are not represented.\<close>

definition F_pad :: "int list \<Rightarrow> int \<Rightarrow> int list" where
  "F_pad codes k =
     (if 0 \<le> k then codes @ replicate (nat k) 0
      else take (nat (int (length codes) + k)) codes)"

section \<open>Helpers of the repository that are not part of the sources\<close>

text \<open>
  Modelled from the spec: \<^verbatim>\<open>utils.util.ceil_multiple\<close> is imported by the evaluator but
  its body is not among the sources.  The specification (section 4.1) gives its result:
  \<^verbatim>\<open>padded_output_size\<close> is the smallest multiple of \<^verbatim>\<open>alignment_multiple\<close> that is
  at least \<^verbatim>\<open>output_size\<close>.  The definition computes that number for a positive
  multiple by adding what the remainder lacks.
\<close>

definition ceil_multiple :: "int \<Rightarrow> int \<Rightarrow> int" where
  "ceil_multiple base multiple =
     (let res = base mod multiple
      in if res = 0 then base else base + (multiple - res))"

text \<open>
  Modelled from the spec: \<^verbatim>\<open>utils.util.opt_get\<close> is not among the sources.  The
  specification (section 6) lists each recognised option with the default that is used
  when the option is absent; an option dictionary is a record of optional fields and
  \<open>opt_get\<close> reads one of them with its default.
\<close>

definition opt_get :: "'a option \<Rightarrow> 'a \<Rightarrow> 'a" where
  "opt_get v dflt = (case v of None \<Rightarrow> dflt | Some x \<Rightarrow> x)"

section \<open>Objects and the external collaborators\<close>

text \<open>A network (\<^verbatim>\<open>torch.nn.Module\<close>): an opaque payload, the device it lives on, its
  train/eval flag, and the optional attribute \<^verbatim>\<open>alignment_size\<close> that
  \<^verbatim>\<open>hasattr\<close> tests for.\<close>

record 'm net =
  net_payload :: 'm
  net_device :: string
  net_training :: bool
  alignment_size :: "int option"

text \<open>The diffuser built by \<^verbatim>\<open>load_discrete_vocoder_diffuser\<close>, held as the keyword
  arguments it was built from.\<close>

record diffuser =
  desired_diffusion_steps :: int
  schedule :: string
  enable_conditioning_free_guidance :: bool
  conditioning_free_k :: int

text \<open>A value of the \<^verbatim>\<open>model_kwargs\<close> dictionary: a discrete code sequence or a
  floating-point tensor.\<close>

datatype 't kwarg = Codes "int list" | Tensor 't

text \<open>
  Everything the evaluator calls but does not define: the tensor library, the audio
  library, the networks and the loaders.  \<open>'t\<close> is the type of floating-point tensors,
  \<open>'r\<close> the state of the global random-number generator, \<open>'m\<close> a network's payload.
  Calls that read or write files, run the sampler or talk to other workers may fail;
  the sampler also advances the generator.  Building a network draws its initial
  weights from the global generator, so \<open>MelTextCLIP\<close> and \<open>w2v_from_pretrained\<close> take
  the generator state and return it advanced.  Device moves and dtype casts of tensors
  (\<^verbatim>\<open>.to(dev)\<close>, \<^verbatim>\<open>.cpu()\<close>, \<^verbatim>\<open>.float()\<close>) do not change a tensor's value and are
  left out; a network's device is tracked in its record.  \<open>world_size\<close> is
  \<^verbatim>\<open>distributed.get_world_size()\<close> when \<^verbatim>\<open>distributed.is_initialized()\<close>, and
  \<open>None\<close> otherwise.
\<close>

record ('t, 'r, 'm) externals =
  resample :: "'t \<Rightarrow> int \<Rightarrow> int \<Rightarrow> 't"
  unsqueeze :: "'t \<Rightarrow> int \<Rightarrow> 't"
  squeeze :: "'t \<Rightarrow> int \<Rightarrow> 't"
  size_last :: "'t \<Rightarrow> int"
  shape_of :: "'t \<Rightarrow> int list"
  pad_last :: "'t \<Rightarrow> int \<Rightarrow> 't"
  t_mean :: "'t \<Rightarrow> 't"
  t_var :: "'t \<Rightarrow> 't"
  t_sqrt :: "'t \<Rightarrow> 't"
  t_sub :: "'t \<Rightarrow> 't \<Rightarrow> 't"
  t_div :: "'t \<Rightarrow> 't \<Rightarrow> 't"
  t_add_const :: "'t \<Rightarrow> real \<Rightarrow> 't"
  t_div_int :: "'t \<Rightarrow> int \<Rightarrow> 't"
  t_stack :: "'t list \<Rightarrow> error + 't"
  np_mean0 :: "'t \<Rightarrow> 't"
  np_cov :: "'t \<Rightarrow> 't"
  calculate_frechet_distance :: "'t \<Rightarrow> 't \<Rightarrow> 't \<Rightarrow> 't \<Rightarrow> error + 't"
  p_sample_loop ::
    "diffuser \<Rightarrow> 'm net \<Rightarrow> int list \<Rightarrow> (string \<rightharpoonup> 't kwarg) \<Rightarrow> 'r \<Rightarrow> (error + 't) \<times> 'r"
  wav_to_mel :: "'t \<Rightarrow> 't"
  convert_mel_to_codes :: "'m net \<Rightarrow> 't \<Rightarrow> int list"
  dvae_decode :: "'m net \<Rightarrow> int list \<Rightarrow> 't"
  wav_to_univnet_mel :: "'t \<Rightarrow> bool \<Rightarrow> 't"
  denormalize_tacotron_mel :: "'t \<Rightarrow> 't"
  vocoder_inference :: "'m net \<Rightarrow> 't \<Rightarrow> 't"
  text_to_sequence :: "string \<Rightarrow> int list"
  get_speech_projection :: "'m net \<Rightarrow> 't \<Rightarrow> 't"
  w2v_loss :: "'m net \<Rightarrow> 't \<Rightarrow> int list \<Rightarrow> 't"
  load_tsv_aligned_codes :: "string \<Rightarrow> error + (string \<times> string \<times> int list) list"
  load_audio :: "string \<Rightarrow> int \<Rightarrow> error + 't"
  load_speech_dvae :: "error + 'm net"
  load_univnet_vocoder :: "error + 'm net"
  torch_load_norms :: "string \<Rightarrow> error + ('t \<times> 't \<times> 't \<times> 't \<times> 't)"
  torch_load_weights :: "string \<Rightarrow> error + 'm"
  MelTextCLIP :: "'r \<Rightarrow> 'm net \<times> 'r"
  load_state_dict :: "'m net \<Rightarrow> 'm \<Rightarrow> 'm net"
  w2v_from_pretrained :: "string \<Rightarrow> 'r \<Rightarrow> (error + 'm net) \<times> 'r"
  makedirs_error :: "string \<Rightarrow> error option"
  save_error :: "string \<Rightarrow> error option"
  manual_seed :: "int \<Rightarrow> 'r"
  all_reduce :: "'t \<Rightarrow> error + 't"
  world_size :: "int option"

text \<open>The options of the evaluation (\<^verbatim>\<open>opt_eval\<close>) and the environment
  (\<^verbatim>\<open>env\<close>); \<open>schedule_name\<close> is the entry of the master options at
  \<^verbatim>\<open>steps/generator/injectors/diffusion/beta_schedule/schedule_name\<close>.\<close>

record opt_eval =
  eval_tsv :: "string option"
  diffusion_steps :: "int option"
  diffusion_schedule :: "string option"
  conditioning_free :: "bool option"
  conditioning_free_k_opt :: "int option"
  diffusion_type :: "string option"

record env =
  base_path :: string
  step :: int
  device :: string
  rank :: int
  schedule_name :: "string option"

text \<open>The four sampling methods a bound \<^verbatim>\<open>self.diffusion_fn\<close> can refer to.\<close>

datatype strategy =
    Perform_diffusion_tts
  | Perform_original_diffusion_vocoder
  | Perform_diffusion_vocoder
  | Perform_diffusion_tts9_mel_from_codes

text \<open>The evaluator object.  \<open>diffusion_fn\<close> is \<open>None\<close> while the attribute has not been
  assigned; \<open>mel_max\<close> and \<open>mel_min\<close> likewise.\<close>

record ('t, 'm) evaluator =
  model :: "'m net"
  self_env :: env
  real_path :: string
  data :: "(string \<times> string \<times> int list) list"
  skip :: int
  self_diffuser :: diffuser
  dev :: string
  local_modules :: "string \<rightharpoonup> 'm net"
  diffusion_fn :: "strategy option"
  mel_max :: "'t option"
  mel_min :: "'t option"

text \<open>The global state the evaluator touches: the random-number generator as
  \<^verbatim>\<open>torch.get_rng_state\<close> reads it, the directories made and the audio files written,
  in order.\<close>

record ('t, 'r) world =
  rng :: 'r
  made_dirs :: "string list"
  saved :: "(string \<times> 't \<times> int) list"

section \<open>The sampling strategies\<close>

definition perform_diffusion_tts ::
  "('t, 'r, 'm) externals \<Rightarrow> ('t, 'm) evaluator \<Rightarrow> 't \<Rightarrow> int list \<Rightarrow> string \<Rightarrow> int \<Rightarrow> 'r
     \<Rightarrow> (error + ('t \<times> 't \<times> int)) \<times> 'r" where
  "perform_diffusion_tts X self audio codes text sample_rate r =
     (let real_resampled = unsqueeze X (resample X audio 22050 sample_rate) 0;
          aligned_codes_compression_factor = sample_rate * 221 div 11025;
          output_size = int (length codes) * aligned_codes_compression_factor;
          padded_size = ceil_multiple output_size 2048;
          padding_added = padded_size - output_size
      in case py_floordiv padding_added aligned_codes_compression_factor of
           Inl e \<Rightarrow> (Inl e, r)
         | Inr padding_needed_for_codes \<Rightarrow>
             (let codes' = (if padding_needed_for_codes > 0
                            then F_pad codes padding_needed_for_codes else codes);
                  output_shape = [1, 1, padded_size]
              in case p_sample_loop X (self_diffuser self) (model self) output_shape
                        [''tokens'' \<mapsto> Codes codes',
                         ''conditioning_input'' \<mapsto> Tensor real_resampled] r of
                   (Inl e, r') \<Rightarrow> (Inl e, r')
                 | (Inr gen, r') \<Rightarrow> (Inr (gen, real_resampled, sample_rate), r')))"

definition perform_original_diffusion_vocoder ::
  "('t, 'r, 'm) externals \<Rightarrow> ('t, 'm) evaluator \<Rightarrow> 't \<Rightarrow> int list \<Rightarrow> string \<Rightarrow> int \<Rightarrow> 'r
     \<Rightarrow> (error + ('t \<times> 't \<times> int)) \<times> 'r" where
  "perform_original_diffusion_vocoder X self audio codes text sample_rate r =
     (let mel = wav_to_mel X audio
      in case local_modules self ''dvae'' of
           None \<Rightarrow> (Inl KeyError, r)
         | Some dvae \<Rightarrow>
      (let mel_codes = convert_mel_to_codes X dvae mel;
           back_to_mel = dvae_decode X dvae mel_codes;
           orig_audio = audio;
           real_resampled = unsqueeze X (resample X audio 22050 sample_rate) 0;
           output_size = size_last X real_resampled
       in case py_floordiv output_size (size_last X back_to_mel) of
            Inl e \<Rightarrow> (Inl e, r)
          | Inr aligned_mel_compression_factor \<Rightarrow>
       (let padded_size = ceil_multiple output_size 2048;
            padding_added = padded_size - output_size
        in case py_floordiv padding_added aligned_mel_compression_factor of
             Inl e \<Rightarrow> (Inl e, r)
           | Inr padding_needed_for_codes \<Rightarrow>
        (let back_to_mel' = (if padding_needed_for_codes > 0
                             then pad_last X back_to_mel padding_needed_for_codes
                             else back_to_mel);
             output_shape = [1, 1, padded_size]
         in case p_sample_loop X (self_diffuser self) (model self) output_shape
                   [''spectrogram'' \<mapsto> Tensor back_to_mel',
                    ''conditioning_input'' \<mapsto> Tensor (unsqueeze X orig_audio 0)] r of
              (Inl e, r') \<Rightarrow> (Inl e, r')
            | (Inr gen, r') \<Rightarrow>
                (let real_resampled' =
                       unsqueeze X (resample X (squeeze X real_resampled 0) sample_rate 5500) 0;
                     gen' = unsqueeze X (resample X (squeeze X gen 0) sample_rate 5500) 0
                 in (Inr (gen', real_resampled', 5500), r'))))))"

definition perform_diffusion_vocoder ::
  "('t, 'r, 'm) externals \<Rightarrow> ('t, 'm) evaluator \<Rightarrow> 't \<Rightarrow> int list \<Rightarrow> string \<Rightarrow> int \<Rightarrow> 'r
     \<Rightarrow> (error + ('t \<times> 't \<times> int)) \<times> 'r" where
  "perform_diffusion_vocoder X self audio codes text sample_rate r =
     (let mel = wav_to_mel X audio
      in case local_modules self ''dvae'' of
           None \<Rightarrow> (Inl KeyError, r)
         | Some dvae \<Rightarrow>
      (let mel_codes = convert_mel_to_codes X dvae mel;
           text_codes = text_to_sequence X text;
           real_resampled = unsqueeze X (resample X audio 22050 sample_rate) 0;
           output_size = size_last X real_resampled
       in case py_floordiv output_size (int (length mel_codes)) of
            Inl e \<Rightarrow> (Inl e, r)
          | Inr aligned_codes_compression_factor \<Rightarrow>
       (let padded_size = ceil_multiple output_size 2048;
            padding_added = padded_size - output_size
        in case py_floordiv padding_added aligned_codes_compression_factor of
             Inl e \<Rightarrow> (Inl e, r)
           | Inr padding_needed_for_codes \<Rightarrow>
        (let mel_codes' = (if padding_needed_for_codes > 0
                           then F_pad mel_codes padding_needed_for_codes else mel_codes);
             output_shape = [1, 1, padded_size]
         in case p_sample_loop X (self_diffuser self) (model self) output_shape
                   [''tokens'' \<mapsto> Codes mel_codes',
                    ''conditioning_input'' \<mapsto> Tensor (unsqueeze X audio 0),
                    ''unaligned_input'' \<mapsto> Codes text_codes] r of
              (Inl e, r') \<Rightarrow> (Inl e, r')
            | (Inr gen, r') \<Rightarrow> (Inr (gen, real_resampled, sample_rate), r')))))"

definition perform_diffusion_tts9_mel_from_codes ::
  "('t, 'r, 'm) externals \<Rightarrow> ('t, 'm) evaluator \<Rightarrow> 't \<Rightarrow> int list \<Rightarrow> string \<Rightarrow> 'r
     \<Rightarrow> (error + ('t \<times> 't \<times> int)) \<times> 'r" where
  "perform_diffusion_tts9_mel_from_codes X self audio codes text r =
     (let SAMPLE_RATE = 24000;
          mel = wav_to_mel X audio
      in case local_modules self ''dvae'' of
           None \<Rightarrow> (Inl KeyError, r)
         | Some dvae \<Rightarrow>
      (let mel_codes = convert_mel_to_codes X dvae mel;
           real_resampled = unsqueeze X (resample X audio 22050 SAMPLE_RATE) 0;
           univnet_mel = wav_to_univnet_mel X real_resampled False;
           output_size = size_last X univnet_mel
       in case py_floordiv output_size (int (length mel_codes)) of
            Inl e \<Rightarrow> (Inl e, r)
          | Inr aligned_codes_compression_factor \<Rightarrow>
       (case (case alignment_size (model self) of
                Some model_alignment_size \<Rightarrow>
                  (let padded_size = ceil_multiple output_size model_alignment_size;
                       padding_added = padded_size - output_size
                   in case py_floordiv padding_added aligned_codes_compression_factor of
                        Inl e \<Rightarrow> Inl e
                      | Inr padding_needed_for_codes \<Rightarrow>
                          Inr (if padding_needed_for_codes > 0
                               then F_pad mel_codes padding_needed_for_codes else mel_codes,
                               [1, 100, padded_size]))
              | None \<Rightarrow> Inr (mel_codes, shape_of X univnet_mel)) of
          Inl e \<Rightarrow> (Inl e, r)
        | Inr (mel_codes', output_shape) \<Rightarrow>
        (case p_sample_loop X (self_diffuser self) (model self) output_shape
                [''aligned_conditioning'' \<mapsto> Codes mel_codes',
                 ''conditioning_input'' \<mapsto> Tensor univnet_mel] r of
           (Inl e, r') \<Rightarrow> (Inl e, r')
         | (Inr gen_mel, r') \<Rightarrow>
             (let gen_mel' = denormalize_tacotron_mel X gen_mel
              in case local_modules self ''vocoder'' of
                   None \<Rightarrow> (Inl KeyError, r')
                 | Some vocoder \<Rightarrow>
                     (let gen_wav = vocoder_inference X vocoder gen_mel';
                          real_dec = vocoder_inference X vocoder univnet_mel
                      in (Inr (gen_wav, real_dec, SAMPLE_RATE), r')))))))"

section \<open>The evaluator\<close>

text \<open>
  \<^verbatim>\<open>AudioDiffusionFid.__init__\<close>.  The base class \<^verbatim>\<open>evaluator.Evaluator\<close> is not
  among the sources; its constructor is taken to store \<open>model\<close> and \<open>env\<close> on the
  object.  Reading the required option \<^verbatim>\<open>eval_tsv\<close> from a dictionary that lacks it
  raises \<^verbatim>\<open>KeyError\<close>.  The chain of \<^verbatim>\<open>if\<close>/\<^verbatim>\<open>elif\<close> on the mode has no
  \<^verbatim>\<open>else\<close>: for any other string the constructor returns the object as built so far.
  The constructor is given no generator state: what building the auxiliary networks
  draws from the global generator during construction is not tracked, and no statement
  below is about the generator around construction.
\<close>

definition AudioDiffusionFid_init ::
  "('t, 'r, 'm) externals \<Rightarrow> 'm net \<Rightarrow> opt_eval \<Rightarrow> env \<Rightarrow> error + ('t, 'm) evaluator" where
  "AudioDiffusionFid_init X mdl opt environ =
     (case eval_tsv opt of
        None \<Rightarrow> Inl KeyError
      | Some path \<Rightarrow>
     (case load_tsv_aligned_codes X path of
        Inl e \<Rightarrow> Inl e
      | Inr rows \<Rightarrow>
     (let skip_by = (case world_size X of
                       Some n \<Rightarrow> if n > 1 then n else 1
                     | None \<Rightarrow> 1);
          steps = opt_get (diffusion_steps opt) 50;
          sched = (case schedule_name environ of
                     None \<Rightarrow> opt_get (diffusion_schedule opt) ''cosine''
                   | Some s \<Rightarrow> s);
          conditioning_free_diffusion_enabled = opt_get (conditioning_free opt) False;
          k = opt_get (conditioning_free_k_opt opt) 1;
          mode = opt_get (diffusion_type opt) ''tts'';
          self = \<lparr> model = mdl, self_env = environ, real_path = path, data = rows,
                   skip = skip_by,
                   self_diffuser = \<lparr> desired_diffusion_steps = steps, schedule = sched,
                     enable_conditioning_free_guidance = conditioning_free_diffusion_enabled,
                     conditioning_free_k = k \<rparr>,
                   dev = device environ, local_modules = Map.empty,
                   diffusion_fn = None, mel_max = None, mel_min = None \<rparr>
      in if mode = ''tts'' then
           Inr (self\<lparr>diffusion_fn := Some Perform_diffusion_tts\<rparr>)
         else if mode = ''original_vocoder'' then
           (case load_speech_dvae X of
              Inl e \<Rightarrow> Inl e
            | Inr dvae \<Rightarrow>
                Inr (self\<lparr>local_modules := [''dvae'' \<mapsto> dvae\<lparr>net_device := ''cpu''\<rparr>],
                          diffusion_fn := Some Perform_original_diffusion_vocoder\<rparr>))
         else if mode = ''vocoder'' then
           (case load_speech_dvae X of
              Inl e \<Rightarrow> Inl e
            | Inr dvae \<Rightarrow>
                Inr (self\<lparr>local_modules := [''dvae'' \<mapsto> dvae\<lparr>net_device := ''cpu''\<rparr>],
                          diffusion_fn := Some Perform_diffusion_vocoder\<rparr>))
         else if mode = ''tts9_mel'' then
           (case torch_load_norms X ''../experiments/univnet_mel_norms.pth'' of
              Inl e \<Rightarrow> Inl e
            | Inr (mel_means, mel_max_v, mel_min_v, mel_stds, mel_vars) \<Rightarrow>
           (case load_speech_dvae X of
              Inl e \<Rightarrow> Inl e
            | Inr dvae \<Rightarrow>
           (case load_univnet_vocoder X of
              Inl e \<Rightarrow> Inl e
            | Inr vocoder \<Rightarrow>
                Inr (self\<lparr>mel_max := Some mel_max_v, mel_min := Some mel_min_v,
                          local_modules := [''dvae'' \<mapsto> dvae\<lparr>net_device := ''cpu''\<rparr>,
                                            ''vocoder'' \<mapsto> vocoder\<lparr>net_device := ''cpu''\<rparr>],
                          diffusion_fn := Some Perform_diffusion_tts9_mel_from_codes\<rparr>))))
         else Inr self)))"

text \<open>\<^verbatim>\<open>load_projector\<close>: the network is built first, which advances the generator,
  and its weights are then read from the checkpoint.\<close>

definition load_projector ::
  "('t, 'r, 'm) externals \<Rightarrow> 'r \<Rightarrow> (error + 'm net) \<times> 'r" where
  "load_projector X r =
     (case MelTextCLIP X r of
        (mdl, r') \<Rightarrow>
          (case torch_load_weights X ''../experiments/clip_text_to_voice_for_speech_fid.pth'' of
             Inl e \<Rightarrow> (Inl e, r')
           | Inr weights \<Rightarrow> (Inr (load_state_dict X mdl weights), r')))"

definition project :: "('t, 'r, 'm) externals \<Rightarrow> 'm net \<Rightarrow> 't \<Rightarrow> int \<Rightarrow> 't" where
  "project X projector sample sample_rate =
     (let sample' = resample X sample sample_rate 22050;
          mel = wav_to_mel X sample'
      in squeeze X (get_speech_projection X projector mel) 0)"

definition load_w2v ::
  "('t, 'r, 'm) externals \<Rightarrow> 'r \<Rightarrow> (error + 'm net) \<times> 'r" where
  "load_w2v X r =
     w2v_from_pretrained X ''jbetker/wav2vec2-large-robust-ft-libritts-voxpopuli'' r"

text \<open>\<^verbatim>\<open>intelligibility_loss\<close>: the loop over \<^verbatim>\<open>[sample, real_sample]\<close> appends one
  loss per waveform to \<open>results\<close>, which is then unpacked into its two elements.\<close>

definition intelligibility_loss ::
  "('t, 'r, 'm) externals \<Rightarrow> 'm net \<Rightarrow> 't \<Rightarrow> 't \<Rightarrow> int \<Rightarrow> string \<Rightarrow> 't" where
  "intelligibility_loss X w2v sample real_sample sample_rate real_text =
     (let text_codes = text_to_sequence X real_text;
          results =
            foldl (\<lambda>results s.
                (let s' = resample X s sample_rate 16000;
                     norm_s = t_div X (t_sub X s' (t_mean X s'))
                                (t_sqrt X (t_add_const X (t_var X s') (1 / 10 ^ 7)));
                     norm_s' = squeeze X norm_s 1;
                     loss = w2v_loss X w2v norm_s' text_codes
                 in results @ [loss]))
              [] [sample, real_sample];
          gen_loss = results ! 0;
          real_loss = results ! 1
      in t_sub X gen_loss real_loss)"

definition compute_frechet_distance ::
  "('t, 'r, 'm) externals \<Rightarrow> 't \<Rightarrow> 't \<Rightarrow> error + 't" where
  "compute_frechet_distance X proj1 proj2 =
     (let mu1 = np_mean0 X proj1;
          mu2 = np_mean0 X proj2;
          sigma1 = np_cov X proj1;
          sigma2 = np_cov X proj2
      in calculate_frechet_distance X mu1 sigma1 mu2 sigma2)"

text \<open>The call \<^verbatim>\<open>self.diffusion_fn(audio, codes, text)\<close>: reading an attribute that was
  never assigned raises \<^verbatim>\<open>AttributeError\<close>; otherwise the bound method runs with its
  default sample rate.\<close>

definition call_diffusion_fn ::
  "('t, 'r, 'm) externals \<Rightarrow> ('t, 'm) evaluator \<Rightarrow> 't \<Rightarrow> int list \<Rightarrow> string \<Rightarrow> 'r
     \<Rightarrow> (error + ('t \<times> 't \<times> int)) \<times> 'r" where
  "call_diffusion_fn X self audio codes text r =
     (case diffusion_fn self of
        None \<Rightarrow> (Inl AttributeError, r)
      | Some Perform_diffusion_tts \<Rightarrow> perform_diffusion_tts X self audio codes text 5500 r
      | Some Perform_original_diffusion_vocoder \<Rightarrow>
          perform_original_diffusion_vocoder X self audio codes text 11025 r
      | Some Perform_diffusion_vocoder \<Rightarrow> perform_diffusion_vocoder X self audio codes text 5500 r
      | Some Perform_diffusion_tts9_mel_from_codes \<Rightarrow>
          perform_diffusion_tts9_mel_from_codes X self audio codes text r)"

text \<open>The name of an audio file of example \<open>i\<close>:
  \<^verbatim>\<open>os.path.join(save_path, f"{rank}_{i}_<kind>.wav")\<close>.\<close>

definition audio_file :: "string \<Rightarrow> int \<Rightarrow> int \<Rightarrow> string \<Rightarrow> string" where
  "audio_file save_path rnk i kind =
     path_join save_path [str_int rnk @ ''_'' @ str_int i @ ''_'' @ kind @ ''.wav'']"

text \<open>One iteration of the loop of \<^verbatim>\<open>perform_eval\<close> for index \<open>i\<close>; the accumulator
  holds \<open>gen_projections\<close>, \<open>real_projections\<close> and \<open>intelligibility_losses\<close>.  An
  exception leaves the world as it is at the raise.\<close>

definition eval_step ::
  "('t, 'r, 'm) externals \<Rightarrow> ('t, 'm) evaluator \<Rightarrow> 'm net \<Rightarrow> 'm net \<Rightarrow> string \<Rightarrow> int
     \<Rightarrow> 't list \<times> 't list \<times> 't list \<Rightarrow> ('t, 'r) world
     \<Rightarrow> (error + 't list \<times> 't list \<times> 't list) \<times> ('t, 'r) world" where
  "eval_step X self projector w2v save_path i acc w =
     (case acc of (gen_projections, real_projections, intelligibility_losses) \<Rightarrow>
     (case py_getitem (data self) (i + rank (self_env self)) of
        Inl e \<Rightarrow> (Inl e, w)
      | Inr (path, text, codes) \<Rightarrow>
     (case load_audio X path 22050 of
        Inl e \<Rightarrow> (Inl e, w)
      | Inr audio \<Rightarrow>
     (case call_diffusion_fn X self audio codes text (rng w) of
        (Inl e, r') \<Rightarrow> (Inl e, w\<lparr>rng := r'\<rparr>)
      | (Inr (sample, ref, sample_rate), r') \<Rightarrow>
     (let w1 = w\<lparr>rng := r'\<rparr>;
          gen_projections' = gen_projections @ [project X projector sample sample_rate];
          real_projections' = real_projections @ [project X projector ref sample_rate];
          intelligibility_losses' = intelligibility_losses @
            [intelligibility_loss X w2v sample ref sample_rate text];
          gen_file = audio_file save_path (rank (self_env self)) i ''gen''
      in case save_error X gen_file of
           Some e \<Rightarrow> (Inl e, w1)
         | None \<Rightarrow>
     (let w2 = w1\<lparr>saved := saved w1 @ [(gen_file, squeeze X sample 0, sample_rate)]\<rparr>;
          real_file = audio_file save_path (rank (self_env self)) i ''real''
      in case save_error X real_file of
           Some e \<Rightarrow> (Inl e, w2)
         | None \<Rightarrow>
             (Inr (gen_projections', real_projections', intelligibility_losses'),
              w2\<lparr>saved := saved w2 @ [(real_file, squeeze X ref 0, sample_rate)]\<rparr>)))))))"

fun eval_loop ::
  "('t, 'r, 'm) externals \<Rightarrow> ('t, 'm) evaluator \<Rightarrow> 'm net \<Rightarrow> 'm net \<Rightarrow> string \<Rightarrow> int list
     \<Rightarrow> 't list \<times> 't list \<times> 't list \<Rightarrow> ('t, 'r) world
     \<Rightarrow> (error + 't list \<times> 't list \<times> 't list) \<times> ('t, 'r) world" where
  "eval_loop X self projector w2v save_path [] acc w = (Inr acc, w)"
| "eval_loop X self projector w2v save_path (i # rest) acc w =
     (case eval_step X self projector w2v save_path i acc w of
        (Inl e, w') \<Rightarrow> (Inl e, w')
      | (Inr acc', w') \<Rightarrow> eval_loop X self projector w2v save_path rest acc' w')"

text \<open>Lines 230 to 239 of \<^verbatim>\<open>perform_eval\<close>: stacking, the two metrics, and the
  reduction over the workers of a distributed run.\<close>

definition aggregate ::
  "('t, 'r, 'm) externals \<Rightarrow> 't list \<times> 't list \<times> 't list \<Rightarrow> error + ('t \<times> 't)" where
  "aggregate X acc =
     (case acc of (gen_projections, real_projections, intelligibility_losses) \<Rightarrow>
     (case t_stack X gen_projections of
        Inl e \<Rightarrow> Inl e
      | Inr gen_stacked \<Rightarrow>
     (case t_stack X real_projections of
        Inl e \<Rightarrow> Inl e
      | Inr real_stacked \<Rightarrow>
     (case t_stack X intelligibility_losses of
        Inl e \<Rightarrow> Inl e
      | Inr losses_stacked \<Rightarrow>
     (let intelligibility = t_mean X losses_stacked
      in case compute_frechet_distance X gen_stacked real_stacked of
           Inl e \<Rightarrow> Inl e
         | Inr frechet_distance \<Rightarrow>
             (case world_size X of
                None \<Rightarrow> Inr (frechet_distance, intelligibility)
              | Some n \<Rightarrow>
                  if n > 1 then
                    (case all_reduce X frechet_distance of
                       Inl e \<Rightarrow> Inl e
                     | Inr fd_sum \<Rightarrow>
                    (let frechet_distance' = t_div_int X fd_sum n
                     in case all_reduce X intelligibility of
                          Inl e \<Rightarrow> Inl e
                        | Inr il_sum \<Rightarrow> Inr (frechet_distance', t_div_int X il_sum n)))
                  else Inr (frechet_distance, intelligibility)))))))"

text \<open>\<^verbatim>\<open>mod.to(device)\<close> for every entry of \<^verbatim>\<open>self.local_modules\<close>.\<close>

definition modules_to ::
  "string \<Rightarrow> (string \<rightharpoonup> 'm net) \<Rightarrow> (string \<rightharpoonup> 'm net)" where
  "modules_to d mods = (\<lambda>k. map_option (\<lambda>md. md\<lparr>net_device := d\<rparr>) (mods k))"

text \<open>\<^verbatim>\<open>perform_eval\<close>.  The result is the outcome (the metrics dictionary, or the
  exception that ended the run) with the evaluator object and the world as the run left
  them.  The projector and the ASR network are loaded before
  \<^verbatim>\<open>torch.get_rng_state()\<close> is called, so \<open>rng_state\<close> is the generator state as the
  two loaders left it.\<close>

definition perform_eval ::
  "('t, 'r, 'm) externals \<Rightarrow> ('t, 'm) evaluator \<Rightarrow> ('t, 'r) world
     \<Rightarrow> (error + (string \<rightharpoonup> 't)) \<times> ('t, 'm) evaluator \<times> ('t, 'r) world" where
  "perform_eval X self w =
     (let save_path = path_join (base_path (self_env self))
                        [''../'', ''audio_eval'', str_int (step (self_env self))]
      in case makedirs_error X save_path of
           Some e \<Rightarrow> (Inl e, self, w)
         | None \<Rightarrow>
     (let w0 = w\<lparr>made_dirs := made_dirs w @ [save_path]\<rparr>
      in case load_projector X (rng w0) of
           (Inl e, r1) \<Rightarrow> (Inl e, self, w0\<lparr>rng := r1\<rparr>)
         | (Inr loaded_projector, r1) \<Rightarrow>
     (let projector = loaded_projector\<lparr>net_device := device (self_env self),
                                        net_training := False\<rparr>
      in case load_w2v X r1 of
           (Inl e, r2) \<Rightarrow> (Inl e, self, w0\<lparr>rng := r2\<rparr>)
         | (Inr loaded_w2v, r2) \<Rightarrow>
     (let w2v = loaded_w2v\<lparr>net_device := device (self_env self), net_training := False\<rparr>;
          self1 = self\<lparr>local_modules := modules_to (device (self_env self)) (local_modules self)\<rparr>;
          w_loaded = w0\<lparr>rng := r2\<rparr>;
          rng_state = rng w_loaded;
          w1 = w_loaded\<lparr>rng := manual_seed X 5\<rparr>;
          self2 = self1\<lparr>model := (model self1)\<lparr>net_training := False\<rparr>\<rparr>
      in case py_range 0 (int (length (data self2))) (skip self2) of
           Inl e \<Rightarrow> (Inl e, self2, w1)
         | Inr indices \<Rightarrow>
     (case eval_loop X self2 projector w2v save_path indices ([], [], []) w1 of
        (Inl e, w2) \<Rightarrow> (Inl e, self2, w2)
      | (Inr acc, w2) \<Rightarrow>
     (case aggregate X acc of
        Inl e \<Rightarrow> (Inl e, self2, w2)
      | Inr (frechet_distance, intelligibility) \<Rightarrow>
     (let self3 = self2\<lparr>model := (model self2)\<lparr>net_training := True\<rparr>\<rparr>;
          w3 = w2\<lparr>rng := rng_state\<rparr>;
          self4 = self3\<lparr>local_modules := modules_to ''cpu'' (local_modules self3)\<rparr>
      in (Inr [''frechet_distance'' \<mapsto> frechet_distance,
               ''intelligibility_loss'' \<mapsto> intelligibility],
          self4, w3))))))))"

text \<open>The external collaborators with a sampler that is always handed the model in eval
  mode, whatever mode the model is in when the sampler is called.  It is used to state
  that a run only ever samples from the model in eval mode.\<close>

definition eval_mode_sampler ::
  "('t, 'r, 'm) externals \<Rightarrow> ('t, 'r, 'm) externals" where
  "eval_mode_sampler X =
     X\<lparr>p_sample_loop := (\<lambda>d m. p_sample_loop X d (m\<lparr>net_training := False\<rparr>))\<rparr>"

section \<open>A concrete instance\<close>

text \<open>A small instance of the external collaborators, used to run the definitions on
  concrete inputs: tensors are integers, the generator state is a counter that the
  sampler and the building of a network advance by one, and the sampler's output tells
  whether it saw the model in training mode.\<close>

definition demo_net :: "unit net" where
  "demo_net = \<lparr> net_payload = (), net_device = ''cpu'', net_training = True,
                 alignment_size = None \<rparr>"

definition demo_data :: "(string \<times> string \<times> int list) list" where
  "demo_data = [(''a.wav'', ''one'', [1, 2, 3]), (''b.wav'', ''two'', [4, 5]),
                (''c.wav'', ''three'', [6]), (''d.wav'', ''four'', [7, 8, 9, 10])]"

definition demo_externals :: "(int, nat, unit) externals" where
  "demo_externals = \<lparr>
     resample = (\<lambda>t a b. t),
     unsqueeze = (\<lambda>t d. t),
     squeeze = (\<lambda>t d. t),
     size_last = (\<lambda>t. 22050),
     shape_of = (\<lambda>t. [1, 22050]),
     pad_last = (\<lambda>t k. t),
     t_mean = (\<lambda>t. t div 2),
     t_var = (\<lambda>t. 1),
     t_sqrt = (\<lambda>t. t),
     t_sub = (\<lambda>a b. a - b),
     t_div = (\<lambda>a b. a div b),
     t_add_const = (\<lambda>t c. t),
     t_div_int = (\<lambda>t n. t div n),
     t_stack = (\<lambda>ts. if ts = [] then Inl (ExternalError ''stack of an empty list'')
                      else Inr (sum_list ts)),
     np_mean0 = (\<lambda>t. t),
     np_cov = (\<lambda>t. 0),
     calculate_frechet_distance = (\<lambda>mu1 sigma1 mu2 sigma2. Inr ((mu1 - mu2) * (mu1 - mu2))),
     p_sample_loop = (\<lambda>d m output_shape kwargs r.
        (Inr (if net_training m then - 1 else int r), Suc r)),
     wav_to_mel = (\<lambda>t. t),
     convert_mel_to_codes = (\<lambda>m t. [1, 2, 3]),
     dvae_decode = (\<lambda>m cs. int (length cs)),
     wav_to_univnet_mel = (\<lambda>t b. t),
     denormalize_tacotron_mel = (\<lambda>t. t),
     vocoder_inference = (\<lambda>m t. t),
     text_to_sequence = (\<lambda>s. map (\<lambda>c. int (of_char c)) s),
     get_speech_projection = (\<lambda>m t. t),
     w2v_loss = (\<lambda>m t cs. t + int (length cs)),
     load_tsv_aligned_codes = (\<lambda>p. Inr demo_data),
     load_audio = (\<lambda>p sr. Inr (int (length p))),
     load_speech_dvae = Inr demo_net,
     load_univnet_vocoder = Inr demo_net,
     torch_load_norms = (\<lambda>p. Inr (0, 1, 2, 3, 4)),
     torch_load_weights = (\<lambda>p. Inr ()),
     MelTextCLIP = (\<lambda>r. (demo_net, Suc r)),
     load_state_dict = (\<lambda>m ws. m),
     w2v_from_pretrained = (\<lambda>n r. (Inr demo_net, Suc r)),
     makedirs_error = (\<lambda>p. None),
     save_error = (\<lambda>p. None),
     manual_seed = (\<lambda>s. nat s),
     all_reduce = (\<lambda>t. Inr (2 * t)),
     world_size = None \<rparr>"

definition demo_opt :: opt_eval where
  "demo_opt = \<lparr> eval_tsv = Some ''test.tsv'', diffusion_steps = None,
                 diffusion_schedule = None, conditioning_free = None,
                 conditioning_free_k_opt = None, diffusion_type = None \<rparr>"

definition demo_env :: env where
  "demo_env = \<lparr> base_path = ''/tmp/run'', step = 558, device = ''cuda'', rank = 0,
                 schedule_name = None \<rparr>"

definition demo_world :: "(int, nat) world" where
  "demo_world = \<lparr> rng = 1234, made_dirs = [], saved = [] \<rparr>"

definition demo_self :: "(int, unit) evaluator" where
  "demo_self = \<lparr> model = demo_net, self_env = demo_env, real_path = ''test.tsv'',
       data = demo_data, skip = 1,
       self_diffuser = \<lparr> desired_diffusion_steps = 50, schedule = ''cosine'',
         enable_conditioning_free_guidance = False, conditioning_free_k = 1 \<rparr>,
       dev = ''cuda'', local_modules = Map.empty,
       diffusion_fn = Some Perform_diffusion_tts, mel_max = None, mel_min = None \<rparr>"

definition demo_vocoder_self :: "(int, unit) evaluator" where
  "demo_vocoder_self = demo_self\<lparr> local_modules := [''dvae'' \<mapsto> demo_net],
       diffusion_fn := Some Perform_diffusion_vocoder \<rparr>"


definition demo_bogus_opt :: opt_eval where
  "demo_bogus_opt = demo_opt\<lparr>diffusion_type := Some ''bogus''\<rparr>"

definition demo_failing_externals :: "(int, nat, unit) externals" where
  "demo_failing_externals =
     demo_externals\<lparr>save_error := (\<lambda>p. Some (ExternalError ''disk full''))\<rparr>"





section \<open>An instance with the special values of floating-point numbers\<close>

text \<open>A floating-point value as far as its special values go: a finite number (its
  rounding is not represented), an infinity or not-a-number.  \<open>f_sub\<close> is IEEE 754
  subtraction on them: a difference that involves not-a-number, or two infinities of
  the same sign, is not-a-number.\<close>

datatype fval = Fin real | PosInf | NegInf | NaN

fun f_sub :: "fval \<Rightarrow> fval \<Rightarrow> fval" where
  "f_sub NaN y = NaN"
| "f_sub x NaN = NaN"
| "f_sub (Fin a) (Fin b) = Fin (a - b)"
| "f_sub (Fin a) PosInf = NegInf"
| "f_sub (Fin a) NegInf = PosInf"
| "f_sub PosInf PosInf = NaN"
| "f_sub PosInf y = PosInf"
| "f_sub NegInf NegInf = NaN"
| "f_sub NegInf y = NegInf"

text \<open>External collaborators over such values.  A tensor is a single value (a waveform of
  one frame, or a scalar); subtraction is \<open>f_sub\<close>; the ASR loss is the CTC loss as far
  as it matters here: infinite when the transcript has more tokens than the input has
  frames.  The other operations are placeholders.\<close>

definition float_externals :: "(fval, nat, unit) externals" where
  "float_externals = \<lparr>
     resample = (\<lambda>t a b. t),
     unsqueeze = (\<lambda>t d. t),
     squeeze = (\<lambda>t d. t),
     size_last = (\<lambda>t. 1),
     shape_of = (\<lambda>t. [1]),
     pad_last = (\<lambda>t k. t),
     t_mean = (\<lambda>t. Fin 0),
     t_var = (\<lambda>t. Fin 1),
     t_sqrt = (\<lambda>t. t),
     t_sub = f_sub,
     t_div = (\<lambda>a b. a),
     t_add_const = (\<lambda>t c. t),
     t_div_int = (\<lambda>t n. t),
     t_stack = (\<lambda>ts. if ts = [] then Inl (ExternalError ''stack of an empty list'')
                      else Inr (hd ts)),
     np_mean0 = (\<lambda>t. t),
     np_cov = (\<lambda>t. t),
     calculate_frechet_distance = (\<lambda>mu1 sigma1 mu2 sigma2. Inr (f_sub mu1 mu2)),
     p_sample_loop = (\<lambda>d m output_shape kwargs r. (Inr (Fin (real r)), Suc r)),
     wav_to_mel = (\<lambda>t. t),
     convert_mel_to_codes = (\<lambda>m t. [1]),
     dvae_decode = (\<lambda>m cs. Fin 0),
     wav_to_univnet_mel = (\<lambda>t b. t),
     denormalize_tacotron_mel = (\<lambda>t. t),
     vocoder_inference = (\<lambda>m t. t),
     text_to_sequence = (\<lambda>s. map (\<lambda>c. int (of_char c)) s),
     get_speech_projection = (\<lambda>m t. t),
     w2v_loss = (\<lambda>m t cs. if 1 < length cs then PosInf else t),
     load_tsv_aligned_codes = (\<lambda>p. Inr []),
     load_audio = (\<lambda>p sr. Inr (Fin 0)),
     load_speech_dvae = Inr demo_net,
     load_univnet_vocoder = Inr demo_net,
     torch_load_norms = (\<lambda>p. Inr (Fin 0, Fin 0, Fin 0, Fin 0, Fin 0)),
     torch_load_weights = (\<lambda>p. Inr ()),
     MelTextCLIP = (\<lambda>r. (demo_net, Suc r)),
     load_state_dict = (\<lambda>m ws. m),
     w2v_from_pretrained = (\<lambda>n r. (Inr demo_net, Suc r)),
     makedirs_error = (\<lambda>p. None),
     save_error = (\<lambda>p. None),
     manual_seed = (\<lambda>s. nat s),
     all_reduce = (\<lambda>t. Inr t),
     world_size = None \<rparr>"

section \<open>The concrete instance, evaluated\<close>

lemma demo_externals_fields:
  "resample demo_externals = (\<lambda>t a b. t)"
  "unsqueeze demo_externals = (\<lambda>t d. t)"
  "squeeze demo_externals = (\<lambda>t d. t)"
  "size_last demo_externals = (\<lambda>t. 22050)"
  "shape_of demo_externals = (\<lambda>t. [1, 22050])"
  "pad_last demo_externals = (\<lambda>t k. t)"
  "t_mean demo_externals = (\<lambda>t. t div 2)"
  "t_var demo_externals = (\<lambda>t. 1)"
  "t_sqrt demo_externals = (\<lambda>t. t)"
  "t_sub demo_externals = (\<lambda>a b. a - b)"
  "t_div demo_externals = (\<lambda>a b. a div b)"
  "t_add_const demo_externals = (\<lambda>t c. t)"
  "t_div_int demo_externals = (\<lambda>t n. t div n)"
  "t_stack demo_externals = (\<lambda>ts. if ts = [] then Inl (ExternalError ''stack of an empty list'') else Inr (sum_list ts))"
  "np_mean0 demo_externals = (\<lambda>t. t)"
  "np_cov demo_externals = (\<lambda>t. 0)"
  "calculate_frechet_distance demo_externals = (\<lambda>mu1 sigma1 mu2 sigma2. Inr ((mu1 - mu2) * (mu1 - mu2)))"
  "p_sample_loop demo_externals = (\<lambda>d m output_shape kwargs r. (Inr (if net_training m then - 1 else int r), Suc r))"
  "wav_to_mel demo_externals = (\<lambda>t. t)"
  "convert_mel_to_codes demo_externals = (\<lambda>m t. [1, 2, 3])"
  "dvae_decode demo_externals = (\<lambda>m cs. int (length cs))"
  "wav_to_univnet_mel demo_externals = (\<lambda>t b. t)"
  "denormalize_tacotron_mel demo_externals = (\<lambda>t. t)"
  "vocoder_inference demo_externals = (\<lambda>m t. t)"
  "text_to_sequence demo_externals = (\<lambda>s. map (\<lambda>c. int (of_char c)) s)"
  "get_speech_projection demo_externals = (\<lambda>m t. t)"
  "w2v_loss demo_externals = (\<lambda>m t cs. t + int (length cs))"
  "load_tsv_aligned_codes demo_externals = (\<lambda>p. Inr demo_data)"
  "load_audio demo_externals = (\<lambda>p sr. Inr (int (length p)))"
  "load_speech_dvae demo_externals = Inr demo_net"
  "load_univnet_vocoder demo_externals = Inr demo_net"
  "torch_load_norms demo_externals = (\<lambda>p. Inr (0, 1, 2, 3, 4))"
  "torch_load_weights demo_externals = (\<lambda>p. Inr ())"
  "MelTextCLIP demo_externals = (\<lambda>r. (demo_net, Suc r))"
  "load_state_dict demo_externals = (\<lambda>m ws. m)"
  "w2v_from_pretrained demo_externals = (\<lambda>n r. (Inr demo_net, Suc r))"
  "makedirs_error demo_externals = (\<lambda>p. None)"
  "save_error demo_externals = (\<lambda>p. None)"
  "manual_seed demo_externals = (\<lambda>s. nat s)"
  "all_reduce demo_externals = (\<lambda>t. Inr (2 * t))"
  "world_size demo_externals = None"
  by (simp_all add: demo_externals_def)

lemmas demo_run_simps = perform_eval_def Let_def demo_self_def demo_env_def demo_world_def
  demo_data_def demo_net_def demo_externals_fields upt_rec
  path_join_def path_join2_def str_int_def str_nat.simps digit_char_def py_range_def
  eval_step_def py_getitem_def call_diffusion_fn_def perform_diffusion_tts_def py_floordiv_def
  project_def intelligibility_loss_def audio_file_def aggregate_def
  compute_frechet_distance_def load_projector_def load_w2v_def modules_to_def

lemma demo_run:
  "perform_eval demo_externals demo_self demo_world =
     (Inr [''frechet_distance'' \<mapsto> 36, ''intelligibility_loss'' \<mapsto> 1], demo_self,
      demo_world\<lparr>rng := 1236, made_dirs := [''/tmp/run/../audio_eval/558''],
        saved := [(''/tmp/run/../audio_eval/558/0_0_gen.wav'', 5, 5500),
        (''/tmp/run/../audio_eval/558/0_0_real.wav'', 5, 5500),
        (''/tmp/run/../audio_eval/558/0_1_gen.wav'', 6, 5500),
        (''/tmp/run/../audio_eval/558/0_1_real.wav'', 5, 5500),
        (''/tmp/run/../audio_eval/558/0_2_gen.wav'', 7, 5500),
        (''/tmp/run/../audio_eval/558/0_2_real.wav'', 5, 5500),
        (''/tmp/run/../audio_eval/558/0_3_gen.wav'', 8, 5500),
        (''/tmp/run/../audio_eval/558/0_3_real.wav'', 5, 5500)]\<rparr>)"
  by (simp add: demo_run_simps fun_eq_iff)


section \<open>Alignment and padding\<close>

lemma ceil_multiple_ge: "0 < m \<Longrightarrow> n \<le> ceil_multiple n m"
proof -
  assume "0 < m"
  then have "n mod m < m" by simp
  then show ?thesis
    unfolding ceil_multiple_def Let_def by simp
qed

lemma ceil_multiple_lt:
  assumes "0 < m"
  shows "ceil_multiple n m - m < n"
proof (cases "n mod m = 0")
  case True
  then show ?thesis using assms by (simp add: ceil_multiple_def)
next
  case False
  have "0 \<le> n mod m" using assms by simp
  with False have "0 < n mod m" by linarith
  then show ?thesis using False by (simp add: ceil_multiple_def)
qed

lemma ceil_multiple_dvd: "m dvd ceil_multiple n m"
proof (cases "n mod m = 0")
  case True
  then show ?thesis by (simp add: ceil_multiple_def mod_eq_0_iff_dvd)
next
  case False
  have e: "n = n div m * m + n mod m" by simp
  have "n + (m - n mod m) = n div m * m + m" using e by linarith
  also have "\<dots> = (n div m + 1) * m" by (simp add: algebra_simps)
  finally have "m dvd n + (m - n mod m)" by simp
  then show ?thesis using False by (simp add: ceil_multiple_def)
qed

lemma ceil_multiple_least:
  assumes "0 < m" "m dvd k" "n \<le> k"
  shows "ceil_multiple n m \<le> k"
proof -
  have "m dvd k - (ceil_multiple n m - m)"
    using assms(2) ceil_multiple_dvd [of m n] by simp
  moreover have "0 < k - (ceil_multiple n m - m)"
    using ceil_multiple_lt [OF assms(1), of n] assms(3) by simp
  ultimately have "m \<le> k - (ceil_multiple n m - m)"
    by (rule zdvd_imp_le)
  then show ?thesis by simp
qed

text \<open>
  Claim C2.  For every \<open>output_size \<ge> 0\<close> and every alignment multiple \<open>m > 0\<close>, the
  padded output size is a multiple of \<open>m\<close>, is at least \<open>output_size\<close>, exceeds it by
  less than \<open>m\<close>, and no multiple of \<open>m\<close> that is at least \<open>output_size\<close> is smaller:
  it is the smallest multiple of \<open>m\<close> greater than or equal to \<open>output_size\<close>.
\<close>

theorem ceil_multiple_smallest_multiple:
  assumes "0 \<le> output_size" and "0 < m"
  shows "m dvd ceil_multiple output_size m
       \<and> output_size \<le> ceil_multiple output_size m
       \<and> ceil_multiple output_size m - m < output_size
       \<and> (\<forall>k. m dvd k \<and> output_size \<le> k \<longrightarrow> ceil_multiple output_size m \<le> k)"
  using assms ceil_multiple_dvd ceil_multiple_ge ceil_multiple_lt ceil_multiple_least
  by blast

theorem ceil_multiple_smallest_multiple_witness:
  "(0::int) \<le> 5000 \<and> (0::int) < 2048 \<and> ceil_multiple 5000 2048 = 6144
   \<and> (2048::int) dvd 6144 \<and> (5000::int) \<le> 6144 \<and> (6144::int) - 2048 < 5000
   \<and> ceil_multiple 5000 2048 \<le> 8192"
proof -
  have a: "(0::int) \<le> 5000" and b: "(0::int) < 2048" by simp_all
  have c: "(2048::int) dvd 8192 \<and> (5000::int) \<le> 8192" by simp
  from ceil_multiple_smallest_multiple [OF a b] c
  have "ceil_multiple 5000 2048 \<le> 8192" by blast
  then show ?thesis by (simp add: ceil_multiple_def)
qed

section \<open>Padding of the code sequence\<close>

lemma codes_padding_nonneg:
  "0 < m \<Longrightarrow> 0 < cf \<Longrightarrow> 0 \<le> (ceil_multiple output_size m - output_size) div cf"
  using ceil_multiple_ge [of m output_size] by (simp add: pos_imp_zdiv_nonneg_iff)

lemma F_pad_guarded:
  "0 \<le> k \<Longrightarrow> (if k > 0 then F_pad codes k else codes) = codes @ replicate (nat k) 0"
  by (simp add: F_pad_def)

lemma perform_diffusion_tts_padding:
  assumes "0 < sample_rate * 221 div 11025"
  shows "perform_diffusion_tts X self audio codes text sample_rate r =
     (let cf = sample_rate * 221 div 11025;
          output_size = int (length codes) * cf;
          padded_output_size = ceil_multiple output_size 2048;
          codes_padding = (padded_output_size - output_size) div cf;
          real_resampled = unsqueeze X (resample X audio 22050 sample_rate) 0
      in case p_sample_loop X (self_diffuser self) (model self) [1, 1, padded_output_size]
                [''tokens'' \<mapsto> Codes (codes @ replicate (nat codes_padding) 0),
                 ''conditioning_input'' \<mapsto> Tensor real_resampled] r of
           (Inl e, r') \<Rightarrow> (Inl e, r')
         | (Inr gen, r') \<Rightarrow> (Inr (gen, real_resampled, sample_rate), r'))"
proof -
  have "0 \<le> (ceil_multiple (int (length codes) * (sample_rate * 221 div 11025)) 2048
              - int (length codes) * (sample_rate * 221 div 11025))
             div (sample_rate * 221 div 11025)"
    using assms by (intro codes_padding_nonneg) simp_all
  then show ?thesis
    using assms
    by (simp add: perform_diffusion_tts_def py_floordiv_def Let_def F_pad_guarded
        del: fun_upd_apply)
qed

lemma perform_diffusion_vocoder_padding:
  assumes "local_modules self ''dvae'' = Some dvae"
    and "mel_codes = convert_mel_to_codes X dvae (wav_to_mel X audio)"
    and "real_resampled = unsqueeze X (resample X audio 22050 sample_rate) 0"
    and "0 < size_last X real_resampled div int (length mel_codes)"
  shows "perform_diffusion_vocoder X self audio codes text sample_rate r =
     (let output_size = size_last X real_resampled;
          cf = output_size div int (length mel_codes);
          padded_output_size = ceil_multiple output_size 2048;
          codes_padding = (padded_output_size - output_size) div cf
      in case p_sample_loop X (self_diffuser self) (model self) [1, 1, padded_output_size]
                [''tokens'' \<mapsto> Codes (mel_codes @ replicate (nat codes_padding) 0),
                 ''conditioning_input'' \<mapsto> Tensor (unsqueeze X audio 0),
                 ''unaligned_input'' \<mapsto> Codes (text_to_sequence X text)] r of
           (Inl e, r') \<Rightarrow> (Inl e, r')
         | (Inr gen, r') \<Rightarrow> (Inr (gen, real_resampled, sample_rate), r'))"
proof -
  let ?out = "size_last X real_resampled"
  let ?cf = "?out div int (length mel_codes)"
  have len: "int (length mel_codes) \<noteq> 0"
    using assms(4) by auto
  have nonneg: "0 \<le> (ceil_multiple ?out 2048 - ?out) div ?cf"
    using assms(4) by (intro codes_padding_nonneg) simp_all
  show ?thesis
    using assms(1,4) len nonneg unfolding assms(2,3)
    by (simp add: perform_diffusion_vocoder_def py_floordiv_def Let_def F_pad_guarded
        del: fun_upd_apply)
qed


text \<open>
  Claim C3.  For a positive compression factor, the padding of the codes equals
  \<open>(padded_output_size - output_size) div compression_factor\<close> (floor division) and is
  never negative; the strategies \<^verbatim>\<open>perform_diffusion_tts\<close> and
  \<^verbatim>\<open>perform_diffusion_vocoder\<close> hand the sampler the code sequence padded on the
  right with exactly that many zeros, which leaves it unchanged when the amount is 0.
\<close>

theorem codes_padding_floor_division:
  "(0 < m \<and> 0 < compression_factor \<longrightarrow>
      0 \<le> (ceil_multiple output_size m - output_size) div compression_factor)
   \<and> (0 < sample_rate * 221 div 11025 \<longrightarrow>
      (let cf = sample_rate * 221 div 11025;
           output_size = int (length codes) * cf;
           padded_output_size = ceil_multiple output_size 2048;
           codes_padding = (padded_output_size - output_size) div cf;
           real_resampled = unsqueeze X (resample X audio 22050 sample_rate) 0
       in 0 \<le> codes_padding \<and>
          perform_diffusion_tts X self audio codes transcript sample_rate r =
            (case p_sample_loop X (self_diffuser self) (model self) [1, 1, padded_output_size]
                    [''tokens'' \<mapsto> Codes (codes @ replicate (nat codes_padding) 0),
                     ''conditioning_input'' \<mapsto> Tensor real_resampled] r of
               (Inl e, r') \<Rightarrow> (Inl e, r')
             | (Inr gen, r') \<Rightarrow> (Inr (gen, real_resampled, sample_rate), r'))))
   \<and> (local_modules vself ''dvae'' = Some dvae \<and>
       0 < size_last X (unsqueeze X (resample X audio 22050 sample_rate) 0)
             div int (length (convert_mel_to_codes X dvae (wav_to_mel X audio))) \<longrightarrow>
      (let mel_codes = convert_mel_to_codes X dvae (wav_to_mel X audio);
           real_resampled = unsqueeze X (resample X audio 22050 sample_rate) 0;
           output_size = size_last X real_resampled;
           cf = output_size div int (length mel_codes);
           padded_output_size = ceil_multiple output_size 2048;
           codes_padding = (padded_output_size - output_size) div cf
       in 0 \<le> codes_padding \<and>
          perform_diffusion_vocoder X vself audio codes transcript sample_rate r =
            (case p_sample_loop X (self_diffuser vself) (model vself) [1, 1, padded_output_size]
                    [''tokens'' \<mapsto> Codes (mel_codes @ replicate (nat codes_padding) 0),
                     ''conditioning_input'' \<mapsto> Tensor (unsqueeze X audio 0),
                     ''unaligned_input'' \<mapsto> Codes (text_to_sequence X transcript)] r of
               (Inl e, r') \<Rightarrow> (Inl e, r')
             | (Inr gen, r') \<Rightarrow> (Inr (gen, real_resampled, sample_rate), r'))))"
proof (intro conjI impI)
  assume "0 < m \<and> 0 < compression_factor"
  then show "0 \<le> (ceil_multiple output_size m - output_size) div compression_factor"
    by (simp add: codes_padding_nonneg)
next
  assume cf: "0 < sample_rate * 221 div 11025"
  have "0 \<le> (ceil_multiple (int (length codes) * (sample_rate * 221 div 11025)) 2048
              - int (length codes) * (sample_rate * 221 div 11025))
             div (sample_rate * 221 div 11025)"
    using cf by (intro codes_padding_nonneg) simp_all
  then show "let cf = sample_rate * 221 div 11025;
           output_size = int (length codes) * cf;
           padded_output_size = ceil_multiple output_size 2048;
           codes_padding = (padded_output_size - output_size) div cf;
           real_resampled = unsqueeze X (resample X audio 22050 sample_rate) 0
       in 0 \<le> codes_padding \<and>
          perform_diffusion_tts X self audio codes transcript sample_rate r =
            (case p_sample_loop X (self_diffuser self) (model self) [1, 1, padded_output_size]
                    [''tokens'' \<mapsto> Codes (codes @ replicate (nat codes_padding) 0),
                     ''conditioning_input'' \<mapsto> Tensor real_resampled] r of
               (Inl e, r') \<Rightarrow> (Inl e, r')
             | (Inr gen, r') \<Rightarrow> (Inr (gen, real_resampled, sample_rate), r'))"
    using perform_diffusion_tts_padding [OF cf, of X self audio codes transcript r]
    by (simp add: Let_def del: fun_upd_apply)
next
  let ?mel_codes = "convert_mel_to_codes X dvae (wav_to_mel X audio)"
  let ?rr = "unsqueeze X (resample X audio 22050 sample_rate) 0"
  assume h: "local_modules vself ''dvae'' = Some dvae \<and>
       0 < size_last X ?rr div int (length ?mel_codes)"
  have "0 \<le> (ceil_multiple (size_last X ?rr) 2048 - size_last X ?rr)
             div (size_last X ?rr div int (length ?mel_codes))"
    using h by (intro codes_padding_nonneg) simp_all
  then show "let mel_codes = convert_mel_to_codes X dvae (wav_to_mel X audio);
           real_resampled = unsqueeze X (resample X audio 22050 sample_rate) 0;
           output_size = size_last X real_resampled;
           cf = output_size div int (length mel_codes);
           padded_output_size = ceil_multiple output_size 2048;
           codes_padding = (padded_output_size - output_size) div cf
       in 0 \<le> codes_padding \<and>
          perform_diffusion_vocoder X vself audio codes transcript sample_rate r =
            (case p_sample_loop X (self_diffuser vself) (model vself) [1, 1, padded_output_size]
                    [''tokens'' \<mapsto> Codes (mel_codes @ replicate (nat codes_padding) 0),
                     ''conditioning_input'' \<mapsto> Tensor (unsqueeze X audio 0),
                     ''unaligned_input'' \<mapsto> Codes (text_to_sequence X transcript)] r of
               (Inl e, r') \<Rightarrow> (Inl e, r')
             | (Inr gen, r') \<Rightarrow> (Inr (gen, real_resampled, sample_rate), r'))"
    using h perform_diffusion_vocoder_padding
             [of vself dvae ?mel_codes X audio ?rr sample_rate codes transcript r]
    by (simp add: Let_def del: fun_upd_apply)
qed

theorem codes_padding_floor_division_witness:
  "perform_diffusion_tts demo_externals demo_self 5 [7, 8, 9] ''hi'' 5500 0 =
     (case p_sample_loop demo_externals (self_diffuser demo_self) (model demo_self) [1, 1, 2048]
             [''tokens'' \<mapsto> Codes ([7, 8, 9] @ replicate 15 0),
              ''conditioning_input'' \<mapsto> Tensor 5] 0 of
        (Inl e, r') \<Rightarrow> (Inl e, r')
      | (Inr gen, r') \<Rightarrow> (Inr (gen, 5, 5500), r'))
   \<and> perform_diffusion_vocoder demo_externals demo_vocoder_self 5 [7, 8, 9] ''hi'' 5500 0 =
     (case p_sample_loop demo_externals (self_diffuser demo_vocoder_self)
             (model demo_vocoder_self) [1, 1, 22528]
             [''tokens'' \<mapsto> Codes [1, 2, 3],
              ''conditioning_input'' \<mapsto> Tensor 5,
              ''unaligned_input'' \<mapsto> Codes [104, 105]] 0 of
        (Inl e, r') \<Rightarrow> (Inl e, r')
      | (Inr gen, r') \<Rightarrow> (Inr (gen, 5, 5500), r'))
   \<and> (0::int) \<le> (ceil_multiple 330 2048 - 330) div 110"
proof -
  have h1: "(0::int) < 2048 \<and> (0::int) < 110" by simp
  have h2: "(0::int) < 5500 * 221 div 11025" by simp
  have h3: "local_modules demo_vocoder_self ''dvae'' = Some demo_net \<and>
       0 < size_last demo_externals (unsqueeze demo_externals (resample demo_externals 5 22050 5500) 0)
             div int (length (convert_mel_to_codes demo_externals demo_net (wav_to_mel demo_externals 5)))"
    by (simp add: demo_vocoder_self_def demo_self_def demo_externals_def)
  from codes_padding_floor_division [where m = 2048 and compression_factor = 110 and output_size = 330
      and sample_rate = 5500 and X = demo_externals and self = demo_self and audio = 5
      and codes = "[7, 8, 9]" and transcript = "''hi''" and r = 0 and vself = demo_vocoder_self
      and dvae = demo_net] h1 h2 h3
  show ?thesis
    by (simp add: Let_def ceil_multiple_def demo_externals_def del: fun_upd_apply)
qed


section \<open>The intelligibility scorer\<close>

text \<open>
  Claim C5.  For every generated waveform, reference waveform, sample rate and
  transcript, the scorer resamples each waveform to 16000 Hz, normalises it as
  \<open>(s - mean s) / sqrt (var s + 1e-7)\<close>, takes the ASR loss of each against the tokenised
  transcript and returns the generated loss minus the reference loss: the signed
  difference.  The tensor operations are those of the tensor library, whatever their
  rounding.
\<close>

theorem intelligibility_loss_signed_difference:
  "intelligibility_loss X w2v sample real_sample sample_rate real_text =
     (let text_codes = text_to_sequence X real_text;
          normalize = (\<lambda>s. t_div X (t_sub X s (t_mean X s))
                              (t_sqrt X (t_add_const X (t_var X s) (1 / 10 ^ 7))));
          asr_loss = (\<lambda>wav. w2v_loss X w2v
                        (squeeze X (normalize (resample X wav sample_rate 16000)) 1) text_codes);
          generated_loss = asr_loss sample;
          reference_loss = asr_loss real_sample
      in t_sub X generated_loss reference_loss)"
  by (simp add: intelligibility_loss_def Let_def)

theorem intelligibility_loss_signed_difference_witness:
  "intelligibility_loss demo_externals demo_net 40 70 5500 ''hi'' = - 15"
  using intelligibility_loss_signed_difference [of demo_externals demo_net 40 70 5500 "''hi''"]
  by (simp add: demo_externals_def Let_def)

text \<open>
  Claim C7, as the code has it.  Feeding the same waveform as the generated and as the
  reference input makes both branches compute the same loss, and the gap returned is that
  loss minus itself.  With floating-point subtraction this is zero when the loss is
  finite, and not-a-number when the loss is infinite or not-a-number, as it is for a
  waveform too short for its transcript.
\<close>

theorem intelligibility_gap_of_same_waveform:
  assumes "t_sub X = f_sub"
  shows "intelligibility_loss X w2v s s sample_rate real_text =
     (let text_codes = text_to_sequence X real_text;
          s16 = resample X s sample_rate 16000;
          norm_s = t_div X (t_sub X s16 (t_mean X s16))
                     (t_sqrt X (t_add_const X (t_var X s16) (1 / 10 ^ 7)));
          loss = w2v_loss X w2v (squeeze X norm_s 1) text_codes
      in case loss of Fin a \<Rightarrow> Fin 0 | PosInf \<Rightarrow> NaN | NegInf \<Rightarrow> NaN | NaN \<Rightarrow> NaN)"
proof -
  have "\<And>l. f_sub l l = (case l of Fin a \<Rightarrow> Fin 0 | PosInf \<Rightarrow> NaN | NegInf \<Rightarrow> NaN | NaN \<Rightarrow> NaN)"
    by (case_tac l) simp_all
  then show ?thesis
    by (simp add: intelligibility_loss_def Let_def assms)
qed

theorem intelligibility_gap_of_same_waveform_counterexample:
  "intelligibility_loss float_externals demo_net (Fin 3) (Fin 3) 5500 ''hi'' = NaN
   \<and> intelligibility_loss float_externals demo_net (Fin 3) (Fin 3) 5500 ''hi'' \<noteq> Fin 0"
  by (simp add: intelligibility_loss_def float_externals_def Let_def)

theorem intelligibility_gap_of_same_waveform_witness:
  "t_sub float_externals = f_sub
   \<and> intelligibility_loss float_externals demo_net (Fin 3) (Fin 3) 5500 ''h'' = Fin 0
   \<and> intelligibility_loss float_externals demo_net (Fin 3) (Fin 3) 5500 ''hi'' = NaN"
proof -
  have a: "t_sub float_externals = f_sub"
    by (simp add: float_externals_def)
  from intelligibility_gap_of_same_waveform [OF a, of demo_net "Fin 3" 5500 "''h''"]
    intelligibility_gap_of_same_waveform [OF a, of demo_net "Fin 3" 5500 "''hi''"] a
  show ?thesis
    by (simp add: float_externals_def Let_def)
qed

section \<open>The evaluation run\<close>

lemma perform_eval_success_state:
  assumes "perform_eval X self w = (Inr res, self', w')"
  shows "rng w' = snd (load_w2v X (snd (load_projector X (rng w))))
       \<and> net_training (model self')"
  using assms unfolding perform_eval_def Let_def
  by (auto split: option.splits sum.splits prod.splits)

lemma net_eval_idem: "\<not> net_training m \<Longrightarrow> m\<lparr>net_training := False\<rparr> = m"
  by (cases m) simp

lemma eval_mode_sampler_fields:
  "resample (eval_mode_sampler X) = resample X"
  "unsqueeze (eval_mode_sampler X) = unsqueeze X"
  "squeeze (eval_mode_sampler X) = squeeze X"
  "size_last (eval_mode_sampler X) = size_last X"
  "shape_of (eval_mode_sampler X) = shape_of X"
  "pad_last (eval_mode_sampler X) = pad_last X"
  "t_mean (eval_mode_sampler X) = t_mean X"
  "t_var (eval_mode_sampler X) = t_var X"
  "t_sqrt (eval_mode_sampler X) = t_sqrt X"
  "t_sub (eval_mode_sampler X) = t_sub X"
  "t_div (eval_mode_sampler X) = t_div X"
  "t_add_const (eval_mode_sampler X) = t_add_const X"
  "t_div_int (eval_mode_sampler X) = t_div_int X"
  "t_stack (eval_mode_sampler X) = t_stack X"
  "np_mean0 (eval_mode_sampler X) = np_mean0 X"
  "np_cov (eval_mode_sampler X) = np_cov X"
  "calculate_frechet_distance (eval_mode_sampler X) = calculate_frechet_distance X"
  "wav_to_mel (eval_mode_sampler X) = wav_to_mel X"
  "convert_mel_to_codes (eval_mode_sampler X) = convert_mel_to_codes X"
  "dvae_decode (eval_mode_sampler X) = dvae_decode X"
  "wav_to_univnet_mel (eval_mode_sampler X) = wav_to_univnet_mel X"
  "denormalize_tacotron_mel (eval_mode_sampler X) = denormalize_tacotron_mel X"
  "vocoder_inference (eval_mode_sampler X) = vocoder_inference X"
  "text_to_sequence (eval_mode_sampler X) = text_to_sequence X"
  "get_speech_projection (eval_mode_sampler X) = get_speech_projection X"
  "w2v_loss (eval_mode_sampler X) = w2v_loss X"
  "load_audio (eval_mode_sampler X) = load_audio X"
  "torch_load_weights (eval_mode_sampler X) = torch_load_weights X"
  "MelTextCLIP (eval_mode_sampler X) = MelTextCLIP X"
  "load_state_dict (eval_mode_sampler X) = load_state_dict X"
  "w2v_from_pretrained (eval_mode_sampler X) = w2v_from_pretrained X"
  "makedirs_error (eval_mode_sampler X) = makedirs_error X"
  "save_error (eval_mode_sampler X) = save_error X"
  "manual_seed (eval_mode_sampler X) = manual_seed X"
  "all_reduce (eval_mode_sampler X) = all_reduce X"
  "world_size (eval_mode_sampler X) = world_size X"
  by (simp_all add: eval_mode_sampler_def)

lemma eval_mode_sampler_call:
  "\<not> net_training m \<Longrightarrow> p_sample_loop (eval_mode_sampler X) d m = p_sample_loop X d m"
  by (simp add: eval_mode_sampler_def net_eval_idem)

lemma call_diffusion_fn_eval_mode:
  assumes "\<not> net_training (model self)"
  shows "call_diffusion_fn (eval_mode_sampler X) self = call_diffusion_fn X self"
  unfolding call_diffusion_fn_def perform_diffusion_tts_def
    perform_original_diffusion_vocoder_def perform_diffusion_vocoder_def
    perform_diffusion_tts9_mel_from_codes_def
    eval_mode_sampler_fields eval_mode_sampler_call [OF assms]
  by (rule refl)

lemma eval_step_eval_mode:
  assumes "\<not> net_training (model self)"
  shows "eval_step (eval_mode_sampler X) self = eval_step X self"
  unfolding eval_step_def call_diffusion_fn_eval_mode [OF assms] project_def
    intelligibility_loss_def eval_mode_sampler_fields
  by (rule refl)

lemma eval_loop_eval_mode:
  assumes "\<not> net_training (model self)"
  shows "eval_loop (eval_mode_sampler X) self projector w2v save_path idxs acc w
       = eval_loop X self projector w2v save_path idxs acc w"
  by (induction idxs arbitrary: acc w)
    (simp_all add: eval_step_eval_mode [OF assms] split: prod.splits sum.splits)

lemma perform_eval_eval_mode:
  "perform_eval (eval_mode_sampler X) self w = perform_eval X self w"
proof -
  have a: "\<And>s. \<not> net_training (model (s\<lparr>model := (model s)\<lparr>net_training := False\<rparr>\<rparr>))"
    by simp
  show ?thesis
    unfolding perform_eval_def aggregate_def compute_frechet_distance_def load_projector_def
      load_w2v_def eval_mode_sampler_fields
    by (simp add: eval_loop_eval_mode [OF a] Let_def
        cong: option.case_cong sum.case_cong prod.case_cong)
qed

text \<open>
  Claim C4.  The model under test is in eval mode during a run of \<^verbatim>\<open>perform_eval\<close>
  and in training mode after a run that returns.  The generator state, however, is read
  only after the projector and the ASR network were built, and building them draws from
  the generator: what is written back at the end is the state the two loaders left, not
  the state the caller had before the run.  In the instance below the caller's state is
  1234 and the state after the run is 1236.
\<close>

theorem perform_eval_restores_state_after_loaders:
  "rng demo_world = 1234
   \<and> fst (perform_eval demo_externals demo_self demo_world)
       = Inr [''frechet_distance'' \<mapsto> 36, ''intelligibility_loss'' \<mapsto> 1]
   \<and> rng (snd (snd (perform_eval demo_externals demo_self demo_world))) = 1236
   \<and> snd (load_w2v demo_externals (snd (load_projector demo_externals 1234))) = 1236
   \<and> net_training (model (fst (snd (perform_eval demo_externals demo_self demo_world))))"
  unfolding demo_run
  by (simp add: demo_world_def demo_self_def demo_net_def load_w2v_def load_projector_def
      demo_externals_fields)

lemma digit_char_not_slash: "d < 10 \<Longrightarrow> digit_char d \<noteq> CHR ''/''"
proof -
  assume "d < 10"
  then have "d \<in> {0, 1, 2, 3, 4, 5, 6, 7, 8, 9}" by auto
  then show ?thesis by (auto simp: digit_char_def)
qed

lemma str_nat_digits: "str_nat n \<noteq> [] \<and> CHR ''/'' \<notin> set (str_nat n)"
proof (induction n rule: str_nat.induct)
  case (1 n)
  show ?case
  proof (cases "n < 10")
    case True
    then show ?thesis
      using digit_char_not_slash [of n]
      by (subst (1 2) str_nat.simps) auto
  next
    case False
    have "n mod 10 < 10" by simp
    then have "digit_char (n mod 10) \<noteq> CHR ''/''" by (rule digit_char_not_slash)
    with False 1 show ?thesis
      by (subst (1 2) str_nat.simps) simp
  qed
qed

lemma str_int_no_slash: "str_int i \<noteq> [] \<and> CHR ''/'' \<notin> set (str_int i)"
  using str_nat_digits by (simp add: str_int_def)

lemma str_int_ends:
  "str_int i \<noteq> []" "hd (str_int i) \<noteq> CHR ''/''" "last (str_int i) \<noteq> CHR ''/''"
proof -
  show ne: "str_int i \<noteq> []" using str_int_no_slash by simp
  have "hd (str_int i) \<in> set (str_int i)" using ne by (rule hd_in_set)
  then show "hd (str_int i) \<noteq> CHR ''/''" using str_int_no_slash [of i] by metis
  have "last (str_int i) \<in> set (str_int i)" using ne by (rule last_in_set)
  then show "last (str_int i) \<noteq> CHR ''/''" using str_int_no_slash [of i] by metis
qed

lemma save_path_form:
  "path_join base [''../'', ''audio_eval'', str_int st] =
     (if base = [] \<or> last base = CHR ''/'' then base else base @ ''/'')
       @ ''../audio_eval/'' @ str_int st"
  using str_int_ends [of st] by (simp add: path_join_def path_join2_def)

lemma save_path_ends:
  "path_join base [''../'', ''audio_eval'', str_int st] \<noteq> []"
  "last (path_join base [''../'', ''audio_eval'', str_int st]) \<noteq> CHR ''/''"
  using str_int_ends [of st] by (simp_all add: save_path_form)

lemma audio_file_form:
  assumes "sp \<noteq> []" and "last sp \<noteq> CHR ''/''"
  shows "audio_file sp rnk i kind =
           sp @ ''/'' @ str_int rnk @ ''_'' @ str_int i @ ''_'' @ kind @ ''.wav''"
proof -
  have "hd (str_int rnk @ ''_'' @ str_int i @ ''_'' @ kind @ ''.wav'') \<noteq> CHR ''/''"
    using str_int_ends [of rnk] by simp
  then show ?thesis
    using assms by (simp add: audio_file_def path_join_def path_join2_def)
qed

lemma eval_step_success_full:
  assumes "eval_step X self projector w2v sp i (gs, rs, ls) w = (Inr acc', w')"
  shows "\<exists>path transcript codes audio sample ref rate r'.
           py_getitem (data self) (i + rank (self_env self)) = Inr (path, transcript, codes)
         \<and> load_audio X path 22050 = Inr audio
         \<and> call_diffusion_fn X self audio codes transcript (rng w)
              = (Inr (sample, ref, rate), r')
         \<and> acc' = (gs @ [project X projector sample rate],
                    rs @ [project X projector ref rate],
                    ls @ [intelligibility_loss X w2v sample ref rate transcript])
         \<and> w' = w\<lparr>rng := r',
                  saved := saved w @
                    [(audio_file sp (rank (self_env self)) i ''gen'', squeeze X sample 0, rate),
                     (audio_file sp (rank (self_env self)) i ''real'', squeeze X ref 0, rate)]\<rparr>"
  using assms unfolding eval_step_def Let_def
  by (clarsimp split: sum.splits prod.splits option.splits)


lemma eval_loop_Cons_success:
  assumes "eval_loop X self projector w2v sp (i # rest) (gs, rs, ls) w = (Inr acc, w')"
  shows "\<exists>path transcript codes audio sample ref rate r'.
           py_getitem (data self) (i + rank (self_env self)) = Inr (path, transcript, codes)
         \<and> load_audio X path 22050 = Inr audio
         \<and> call_diffusion_fn X self audio codes transcript (rng w)
              = (Inr (sample, ref, rate), r')
         \<and> eval_loop X self projector w2v sp rest
              (gs @ [project X projector sample rate],
               rs @ [project X projector ref rate],
               ls @ [intelligibility_loss X w2v sample ref rate transcript])
              (w\<lparr>rng := r',
                 saved := saved w @
                   [(audio_file sp (rank (self_env self)) i ''gen'', squeeze X sample 0, rate),
                    (audio_file sp (rank (self_env self)) i ''real'', squeeze X ref 0, rate)]\<rparr>)
              = (Inr acc, w')"
proof -
  from assms obtain acc1 w1 where
    step: "eval_step X self projector w2v sp i (gs, rs, ls) w = (Inr acc1, w1)" and
    rest: "eval_loop X self projector w2v sp rest acc1 w1 = (Inr acc, w')"
    by (auto split: sum.splits prod.splits)
  from eval_step_success_full [OF step] rest show ?thesis
    by (elim exE conjE) (intro exI conjI, assumption+, simp)
qed

lemma eval_loop_made_dirs:
  assumes "eval_loop X self projector w2v sp idxs acc w = (res, w')"
  shows "made_dirs w' = made_dirs w"
  using assms
proof (induction idxs arbitrary: acc w)
  case Nil
  then show ?case by simp
next
  case (Cons i idxs)
  obtain r1 w1 where step: "eval_step X self projector w2v sp i acc w = (r1, w1)"
    by (cases "eval_step X self projector w2v sp i acc w")
  have "made_dirs w1 = made_dirs w"
    using step unfolding eval_step_def Let_def
    by (auto split: sum.splits prod.splits option.splits)
  then show ?case
    using Cons.prems Cons.IH step by (auto split: sum.splits)
qed



lemma py_range_four: "py_range 0 4 1 = Inr [0, 1, 2, 3]"
  by (simp add: py_range_def upt_rec)

lemma perform_eval_success_parts:
  assumes "perform_eval X self w = (Inr res, self', w')"
  shows "\<exists>loaded_projector r1 loaded_w2v r2 idxs acc w2 fd il.
           eval_loop X
               (self\<lparr>local_modules := modules_to (device (self_env self)) (local_modules self),
                     model := (model self)\<lparr>net_training := False\<rparr>\<rparr>)
               (loaded_projector\<lparr>net_device := device (self_env self), net_training := False\<rparr>)
               (loaded_w2v\<lparr>net_device := device (self_env self), net_training := False\<rparr>)
               (path_join (base_path (self_env self))
                  [''../'', ''audio_eval'', str_int (step (self_env self))])
               idxs ([], [], [])
               (w\<lparr>made_dirs := made_dirs w @
                    [path_join (base_path (self_env self))
                       [''../'', ''audio_eval'', str_int (step (self_env self))]],
                  rng := manual_seed X 5\<rparr>)
             = (Inr acc, w2)
         \<and> load_projector X (rng w) = (Inr loaded_projector, r1)
         \<and> load_w2v X r1 = (Inr loaded_w2v, r2)
         \<and> py_range 0 (int (length (data self))) (skip self) = Inr idxs
         \<and> aggregate X acc = Inr (fd, il)
         \<and> res = [''frechet_distance'' \<mapsto> fd, ''intelligibility_loss'' \<mapsto> il]
         \<and> w' = w2\<lparr>rng := r2\<rparr>"
  using assms unfolding perform_eval_def Let_def
  by (clarsimp split: option.splits sum.splits prod.splits)

text \<open>
  Claim C6.  With a dataset of 4 entries and a single worker (\<open>skip = 1\<close>, \<open>rank = 0\<close>), a
  run of \<^verbatim>\<open>perform_eval\<close> that returns visits the indices 0, 1, 2, 3 in order.  At index
  \<open>i\<close> it loads the audio of entry \<open>i\<close> and samples from that audio with the codes and the
  transcript of entry \<open>i\<close>, the generator state passing from one sampling call to the
  next, starting from seed 5.  It accumulates the 4 projections of the generated and the
  4 projections of the reference waveforms (and the 4 intelligibility gaps) and
  aggregates them into the two metrics.  It makes the directory
  \<^verbatim>\<open><base_path>/../audio_eval/<step>\<close> and writes into it, in this order, the 8 files
  \<^verbatim>\<open>0_0_gen.wav\<close>, \<^verbatim>\<open>0_0_real.wav\<close>, ..., \<^verbatim>\<open>0_3_gen.wav\<close>, \<^verbatim>\<open>0_3_real.wav\<close>, each with
  the waveform of its entry; the mapping it returns has exactly the keys
  \<^verbatim>\<open>frechet_distance\<close> and \<^verbatim>\<open>intelligibility_loss\<close>.
\<close>

theorem perform_eval_four_entries:
  assumes "data self = [(path0, transcript0, codes0), (path1, transcript1, codes1),
                        (path2, transcript2, codes2), (path3, transcript3, codes3)]"
    and "skip self = 1" and "rank (self_env self) = 0"
    and "perform_eval X self w = (Inr res, self', w')"
  shows "\<exists>loaded_projector r1 loaded_w2v r2
            audio0 gen0 ref0 rate0 g1 audio1 gen1 ref1 rate1 g2
            audio2 gen2 ref2 rate2 g3 audio3 gen3 ref3 rate3 g4 fd il.
      load_projector X (rng w) = (Inr loaded_projector, r1)
    \<and> load_w2v X r1 = (Inr loaded_w2v, r2)
    \<and> (let dv = device (self_env self);
            projector = loaded_projector\<lparr>net_device := dv, net_training := False\<rparr>;
            w2v = loaded_w2v\<lparr>net_device := dv, net_training := False\<rparr>;
            seeded = self\<lparr>local_modules := modules_to dv (local_modules self),
                           model := (model self)\<lparr>net_training := False\<rparr>\<rparr>;
            base = base_path (self_env self);
            save_path = (if base = [] \<or> last base = CHR ''/'' then base else base @ ''/'')
                          @ ''../audio_eval/'' @ str_int (step (self_env self))
        in py_range 0 (int (length (data self))) (skip self) = Inr [0, 1, 2, 3]
         \<and> load_audio X path0 22050 = Inr audio0
         \<and> call_diffusion_fn X seeded audio0 codes0 transcript0 (manual_seed X 5)
              = (Inr (gen0, ref0, rate0), g1)
         \<and> load_audio X path1 22050 = Inr audio1
         \<and> call_diffusion_fn X seeded audio1 codes1 transcript1 g1
              = (Inr (gen1, ref1, rate1), g2)
         \<and> load_audio X path2 22050 = Inr audio2
         \<and> call_diffusion_fn X seeded audio2 codes2 transcript2 g2
              = (Inr (gen2, ref2, rate2), g3)
         \<and> load_audio X path3 22050 = Inr audio3
         \<and> call_diffusion_fn X seeded audio3 codes3 transcript3 g3
              = (Inr (gen3, ref3, rate3), g4)
         \<and> aggregate X
              ([project X projector gen0 rate0, project X projector gen1 rate1,
                project X projector gen2 rate2, project X projector gen3 rate3],
               [project X projector ref0 rate0, project X projector ref1 rate1,
                project X projector ref2 rate2, project X projector ref3 rate3],
               [intelligibility_loss X w2v gen0 ref0 rate0 transcript0,
                intelligibility_loss X w2v gen1 ref1 rate1 transcript1,
                intelligibility_loss X w2v gen2 ref2 rate2 transcript2,
                intelligibility_loss X w2v gen3 ref3 rate3 transcript3])
              = Inr (fd, il)
         \<and> res = [''frechet_distance'' \<mapsto> fd, ''intelligibility_loss'' \<mapsto> il]
         \<and> dom res = {''frechet_distance'', ''intelligibility_loss''}
         \<and> made_dirs w' = made_dirs w @ [save_path]
         \<and> saved w' = saved w @
              [(save_path @ ''/0_0_gen.wav'', squeeze X gen0 0, rate0),
               (save_path @ ''/0_0_real.wav'', squeeze X ref0 0, rate0),
               (save_path @ ''/0_1_gen.wav'', squeeze X gen1 0, rate1),
               (save_path @ ''/0_1_real.wav'', squeeze X ref1 0, rate1),
               (save_path @ ''/0_2_gen.wav'', squeeze X gen2 0, rate2),
               (save_path @ ''/0_2_real.wav'', squeeze X ref2 0, rate2),
               (save_path @ ''/0_3_gen.wav'', squeeze X gen3 0, rate3),
               (save_path @ ''/0_3_real.wav'', squeeze X ref3 0, rate3)])"
proof -
  let ?sp = "path_join (base_path (self_env self))
               [''../'', ''audio_eval'', str_int (step (self_env self))]"
  let ?seeded = "self\<lparr>local_modules := modules_to (device (self_env self)) (local_modules self),
                       model := (model self)\<lparr>net_training := False\<rparr>\<rparr>"
  have idx: "py_range 0 (int (length (data self))) (skip self) = Inr [0, 1, 2, 3]"
    using assms(1,2) py_range_four by simp
  from perform_eval_success_parts [OF assms(4)]
  obtain lp r1 lw r2 idxs acc w5 fd il where
    loop0: "eval_loop X ?seeded
             (lp\<lparr>net_device := device (self_env self), net_training := False\<rparr>)
             (lw\<lparr>net_device := device (self_env self), net_training := False\<rparr>)
             ?sp idxs ([], [], [])
             (w\<lparr>made_dirs := made_dirs w @ [?sp], rng := manual_seed X 5\<rparr>) = (Inr acc, w5)" and
    lp: "load_projector X (rng w) = (Inr lp, r1)" and
    lw: "load_w2v X r1 = (Inr lw, r2)" and
    idxs: "py_range 0 (int (length (data self))) (skip self) = Inr idxs" and
    agg: "aggregate X acc = Inr (fd, il)" and
    res: "res = [''frechet_distance'' \<mapsto> fd, ''intelligibility_loss'' \<mapsto> il]" and
    w': "w' = w5\<lparr>rng := r2\<rparr>"
    by blast
  let ?p = "lp\<lparr>net_device := device (self_env self), net_training := False\<rparr>"
  let ?v = "lw\<lparr>net_device := device (self_env self), net_training := False\<rparr>"
  have "idxs = [0, 1, 2, 3]" using idx idxs by simp
  with loop0 have loop: "eval_loop X ?seeded ?p ?v ?sp [0, 1, 2, 3] ([], [], [])
             (w\<lparr>made_dirs := made_dirs w @ [?sp], rng := manual_seed X 5\<rparr>) = (Inr acc, w5)"
    by simp
  have rk: "rank (self_env ?seeded) = 0" using assms(3) by simp
  have rows: "py_getitem (data ?seeded) 0 = Inr (path0, transcript0, codes0)"
       "py_getitem (data ?seeded) 1 = Inr (path1, transcript1, codes1)"
       "py_getitem (data ?seeded) 2 = Inr (path2, transcript2, codes2)"
       "py_getitem (data ?seeded) 3 = Inr (path3, transcript3, codes3)"
    by (simp_all add: assms(1) py_getitem_def)
  from eval_loop_Cons_success [OF loop, unfolded rk] rows(1)
  obtain audio0 gen0 ref0 rate0 g1 where
    a0: "load_audio X path0 22050 = Inr audio0" and
    c0: "call_diffusion_fn X ?seeded audio0 codes0 transcript0 (manual_seed X 5)
           = (Inr (gen0, ref0, rate0), g1)" and
    l1: "eval_loop X ?seeded ?p ?v ?sp [1, 2, 3]
           ([project X ?p gen0 rate0], [project X ?p ref0 rate0],
            [intelligibility_loss X ?v gen0 ref0 rate0 transcript0])
           (w\<lparr>made_dirs := made_dirs w @ [?sp], rng := g1,
              saved := saved w @ [(audio_file ?sp 0 0 ''gen'', squeeze X gen0 0, rate0),
                                  (audio_file ?sp 0 0 ''real'', squeeze X ref0 0, rate0)]\<rparr>)
           = (Inr acc, w5)"
    by auto
  from eval_loop_Cons_success [OF l1, unfolded rk] rows(2)
  obtain audio1 gen1 ref1 rate1 g2 where
    a1: "load_audio X path1 22050 = Inr audio1" and
    c1: "call_diffusion_fn X ?seeded audio1 codes1 transcript1 g1
           = (Inr (gen1, ref1, rate1), g2)" and
    l2: "eval_loop X ?seeded ?p ?v ?sp [2, 3]
           ([project X ?p gen0 rate0, project X ?p gen1 rate1],
            [project X ?p ref0 rate0, project X ?p ref1 rate1],
            [intelligibility_loss X ?v gen0 ref0 rate0 transcript0,
             intelligibility_loss X ?v gen1 ref1 rate1 transcript1])
           (w\<lparr>made_dirs := made_dirs w @ [?sp], rng := g2,
              saved := saved w @ [(audio_file ?sp 0 0 ''gen'', squeeze X gen0 0, rate0),
                                  (audio_file ?sp 0 0 ''real'', squeeze X ref0 0, rate0),
                                  (audio_file ?sp 0 1 ''gen'', squeeze X gen1 0, rate1),
                                  (audio_file ?sp 0 1 ''real'', squeeze X ref1 0, rate1)]\<rparr>)
           = (Inr acc, w5)"
    by auto
  from eval_loop_Cons_success [OF l2, unfolded rk] rows(3)
  obtain audio2 gen2 ref2 rate2 g3 where
    a2: "load_audio X path2 22050 = Inr audio2" and
    c2: "call_diffusion_fn X ?seeded audio2 codes2 transcript2 g2
           = (Inr (gen2, ref2, rate2), g3)" and
    l3: "eval_loop X ?seeded ?p ?v ?sp [3]
           ([project X ?p gen0 rate0, project X ?p gen1 rate1, project X ?p gen2 rate2],
            [project X ?p ref0 rate0, project X ?p ref1 rate1, project X ?p ref2 rate2],
            [intelligibility_loss X ?v gen0 ref0 rate0 transcript0,
             intelligibility_loss X ?v gen1 ref1 rate1 transcript1,
             intelligibility_loss X ?v gen2 ref2 rate2 transcript2])
           (w\<lparr>made_dirs := made_dirs w @ [?sp], rng := g3,
              saved := saved w @ [(audio_file ?sp 0 0 ''gen'', squeeze X gen0 0, rate0),
                                  (audio_file ?sp 0 0 ''real'', squeeze X ref0 0, rate0),
                                  (audio_file ?sp 0 1 ''gen'', squeeze X gen1 0, rate1),
                                  (audio_file ?sp 0 1 ''real'', squeeze X ref1 0, rate1),
                                  (audio_file ?sp 0 2 ''gen'', squeeze X gen2 0, rate2),
                                  (audio_file ?sp 0 2 ''real'', squeeze X ref2 0, rate2)]\<rparr>)
           = (Inr acc, w5)"
    by auto
  from eval_loop_Cons_success [OF l3, unfolded rk] rows(4)
  obtain audio3 gen3 ref3 rate3 g4 where
    a3: "load_audio X path3 22050 = Inr audio3" and
    c3: "call_diffusion_fn X ?seeded audio3 codes3 transcript3 g3
           = (Inr (gen3, ref3, rate3), g4)" and
    l4: "eval_loop X ?seeded ?p ?v ?sp []
           ([project X ?p gen0 rate0, project X ?p gen1 rate1, project X ?p gen2 rate2,
             project X ?p gen3 rate3],
            [project X ?p ref0 rate0, project X ?p ref1 rate1, project X ?p ref2 rate2,
             project X ?p ref3 rate3],
            [intelligibility_loss X ?v gen0 ref0 rate0 transcript0,
             intelligibility_loss X ?v gen1 ref1 rate1 transcript1,
             intelligibility_loss X ?v gen2 ref2 rate2 transcript2,
             intelligibility_loss X ?v gen3 ref3 rate3 transcript3])
           (w\<lparr>made_dirs := made_dirs w @ [?sp], rng := g4,
              saved := saved w @ [(audio_file ?sp 0 0 ''gen'', squeeze X gen0 0, rate0),
                                  (audio_file ?sp 0 0 ''real'', squeeze X ref0 0, rate0),
                                  (audio_file ?sp 0 1 ''gen'', squeeze X gen1 0, rate1),
                                  (audio_file ?sp 0 1 ''real'', squeeze X ref1 0, rate1),
                                  (audio_file ?sp 0 2 ''gen'', squeeze X gen2 0, rate2),
                                  (audio_file ?sp 0 2 ''real'', squeeze X ref2 0, rate2),
                                  (audio_file ?sp 0 3 ''gen'', squeeze X gen3 0, rate3),
                                  (audio_file ?sp 0 3 ''real'', squeeze X ref3 0, rate3)]\<rparr>)
           = (Inr acc, w5)"
    by auto
  have names: "\<And>i kind. audio_file ?sp 0 i kind =
      ?sp @ ''/'' @ str_int 0 @ ''_'' @ str_int i @ ''_'' @ kind @ ''.wav''"
    by (rule audio_file_form) (rule save_path_ends)+
  have digits: "str_int 0 = ''0''" "str_int 1 = ''1''" "str_int 2 = ''2''" "str_int 3 = ''3''"
    by (simp_all add: str_int_def str_nat.simps digit_char_def)
  from l4 have acc: "acc =
           ([project X ?p gen0 rate0, project X ?p gen1 rate1, project X ?p gen2 rate2,
             project X ?p gen3 rate3],
            [project X ?p ref0 rate0, project X ?p ref1 rate1, project X ?p ref2 rate2,
             project X ?p ref3 rate3],
            [intelligibility_loss X ?v gen0 ref0 rate0 transcript0,
             intelligibility_loss X ?v gen1 ref1 rate1 transcript1,
             intelligibility_loss X ?v gen2 ref2 rate2 transcript2,
             intelligibility_loss X ?v gen3 ref3 rate3 transcript3])"
    and w5: "w5 = w\<lparr>made_dirs := made_dirs w @ [?sp], rng := g4,
              saved := saved w @ [(audio_file ?sp 0 0 ''gen'', squeeze X gen0 0, rate0),
                                  (audio_file ?sp 0 0 ''real'', squeeze X ref0 0, rate0),
                                  (audio_file ?sp 0 1 ''gen'', squeeze X gen1 0, rate1),
                                  (audio_file ?sp 0 1 ''real'', squeeze X ref1 0, rate1),
                                  (audio_file ?sp 0 2 ''gen'', squeeze X gen2 0, rate2),
                                  (audio_file ?sp 0 2 ''real'', squeeze X ref2 0, rate2),
                                  (audio_file ?sp 0 3 ''gen'', squeeze X gen3 0, rate3),
                                  (audio_file ?sp 0 3 ''real'', squeeze X ref3 0, rate3)]\<rparr>"
    by simp_all
  have dirs: "made_dirs w' = made_dirs w @ [?sp]"
    unfolding w' w5 by simp
  have files: "saved w' = saved w @
              [(?sp @ ''/0_0_gen.wav'', squeeze X gen0 0, rate0),
               (?sp @ ''/0_0_real.wav'', squeeze X ref0 0, rate0),
               (?sp @ ''/0_1_gen.wav'', squeeze X gen1 0, rate1),
               (?sp @ ''/0_1_real.wav'', squeeze X ref1 0, rate1),
               (?sp @ ''/0_2_gen.wav'', squeeze X gen2 0, rate2),
               (?sp @ ''/0_2_real.wav'', squeeze X ref2 0, rate2),
               (?sp @ ''/0_3_gen.wav'', squeeze X gen3 0, rate3),
               (?sp @ ''/0_3_real.wav'', squeeze X ref3 0, rate3)]"
    unfolding w' w5 by (simp add: names digits)
  have keys: "dom res = {''frechet_distance'', ''intelligibility_loss''}"
    unfolding res by auto
  show ?thesis
    unfolding Let_def save_path_form [symmetric]
    apply (rule exI [of _ lp], rule exI [of _ r1], rule exI [of _ lw], rule exI [of _ r2])
    apply (rule exI [of _ audio0], rule exI [of _ gen0], rule exI [of _ ref0],
           rule exI [of _ rate0], rule exI [of _ g1])
    apply (rule exI [of _ audio1], rule exI [of _ gen1], rule exI [of _ ref1],
           rule exI [of _ rate1], rule exI [of _ g2])
    apply (rule exI [of _ audio2], rule exI [of _ gen2], rule exI [of _ ref2],
           rule exI [of _ rate2], rule exI [of _ g3])
    apply (rule exI [of _ audio3], rule exI [of _ gen3], rule exI [of _ ref3],
           rule exI [of _ rate3], rule exI [of _ g4])
    apply (rule exI [of _ fd], rule exI [of _ il])
    apply (intro conjI lp lw idx a0 c0 a1 c1 a2 c2 a3 c3 agg [unfolded acc] res keys dirs files)
    done
qed


theorem perform_eval_four_entries_witness:
  "data demo_self = [(''a.wav'', ''one'', [1, 2, 3]), (''b.wav'', ''two'', [4, 5]),
                     (''c.wav'', ''three'', [6]), (''d.wav'', ''four'', [7, 8, 9, 10])]
   \<and> skip demo_self = 1 \<and> rank (self_env demo_self) = 0
   \<and> fst (perform_eval demo_externals demo_self demo_world)
       = Inr [''frechet_distance'' \<mapsto> 36, ''intelligibility_loss'' \<mapsto> 1]
   \<and> dom (projr (fst (perform_eval demo_externals demo_self demo_world)))
       = {''frechet_distance'', ''intelligibility_loss''}
   \<and> made_dirs (snd (snd (perform_eval demo_externals demo_self demo_world)))
       = [''/tmp/run/../audio_eval/558'']
   \<and> saved (snd (snd (perform_eval demo_externals demo_self demo_world)))
       = [(''/tmp/run/../audio_eval/558/0_0_gen.wav'', 5, 5500),
          (''/tmp/run/../audio_eval/558/0_0_real.wav'', 5, 5500),
          (''/tmp/run/../audio_eval/558/0_1_gen.wav'', 6, 5500),
          (''/tmp/run/../audio_eval/558/0_1_real.wav'', 5, 5500),
          (''/tmp/run/../audio_eval/558/0_2_gen.wav'', 7, 5500),
          (''/tmp/run/../audio_eval/558/0_2_real.wav'', 5, 5500),
          (''/tmp/run/../audio_eval/558/0_3_gen.wav'', 8, 5500),
          (''/tmp/run/../audio_eval/558/0_3_real.wav'', 5, 5500)]"
proof -
  have a: "data demo_self = [(''a.wav'', ''one'', [1, 2, 3]), (''b.wav'', ''two'', [4, 5]),
                     (''c.wav'', ''three'', [6]), (''d.wav'', ''four'', [7, 8, 9, 10])]"
    and b: "skip demo_self = 1" and c: "rank (self_env demo_self) = 0"
    by (simp_all add: demo_self_def demo_data_def demo_env_def)
  from perform_eval_four_entries [OF a b c demo_run]
  have "dom [''frechet_distance'' \<mapsto> 36::int, ''intelligibility_loss'' \<mapsto> 1]
          = {''frechet_distance'', ''intelligibility_loss''}"
    unfolding Let_def by (elim exE conjE)
  then show ?thesis
    unfolding demo_run using a b c by (simp add: demo_world_def)
qed

section \<open>Construction with an unrecognised mode\<close>

text \<open>
  Claim C1, as the code has it.  Constructing the evaluator with a \<^verbatim>\<open>diffusion_type\<close>
  that is none of \<^verbatim>\<open>tts\<close>, \<^verbatim>\<open>original_vocoder\<close>, \<^verbatim>\<open>vocoder\<close>, \<^verbatim>\<open>tts9_mel\<close>
  raises nothing for it: when the manifest loads, construction completes, with no
  sampling function assigned and no auxiliary module loaded.  The misconfiguration
  surfaces at the first use of the sampling function, which raises
  \<^verbatim>\<open>AttributeError\<close>.
\<close>

theorem unrecognised_diffusion_type_is_deferred:
  assumes "diffusion_type opt = Some mode"
    and "mode \<notin> {''tts'', ''original_vocoder'', ''vocoder'', ''tts9_mel''}"
    and "eval_tsv opt = Some path"
    and "load_tsv_aligned_codes X path = Inr rows"
  shows "\<exists>self. AudioDiffusionFid_init X mdl opt environ = Inr self
           \<and> diffusion_fn self = None \<and> local_modules self = Map.empty \<and> data self = rows
           \<and> (\<forall>audio codes transcript r.
                 call_diffusion_fn X self audio codes transcript r = (Inl AttributeError, r))"
  using assms
  by (simp add: AudioDiffusionFid_init_def Let_def opt_get_def call_diffusion_fn_def)

lemma demo_bogus_init:
  "AudioDiffusionFid_init demo_externals demo_net demo_bogus_opt demo_env
     = Inr (demo_self\<lparr>diffusion_fn := None\<rparr>)"
  by (simp add: AudioDiffusionFid_init_def Let_def opt_get_def demo_bogus_opt_def demo_opt_def
      demo_externals_fields demo_self_def demo_env_def)

theorem unrecognised_diffusion_type_counterexample:
  "\<not> isl (AudioDiffusionFid_init demo_externals demo_net demo_bogus_opt demo_env)
   \<and> diffusion_fn (projr (AudioDiffusionFid_init demo_externals demo_net demo_bogus_opt demo_env))
       = None"
  by (simp add: demo_bogus_init)

theorem unrecognised_diffusion_type_is_deferred_witness:
  "diffusion_type demo_bogus_opt = Some ''bogus''
   \<and> ''bogus'' \<notin> {''tts'', ''original_vocoder'', ''vocoder'', ''tts9_mel''}
   \<and> AudioDiffusionFid_init demo_externals demo_net demo_bogus_opt demo_env
        = Inr (demo_self\<lparr>diffusion_fn := None\<rparr>)
   \<and> call_diffusion_fn demo_externals (demo_self\<lparr>diffusion_fn := None\<rparr>) 5 [1, 2, 3] ''one'' 5
        = (Inl AttributeError, 5)
   \<and> fst (perform_eval demo_externals (demo_self\<lparr>diffusion_fn := None\<rparr>) demo_world)
        = Inl AttributeError"
proof -
  have a: "diffusion_type demo_bogus_opt = Some ''bogus''"
    and b: "''bogus'' \<notin> {''tts'', ''original_vocoder'', ''vocoder'', ''tts9_mel''}"
    and c: "eval_tsv demo_bogus_opt = Some ''test.tsv''"
    and d: "load_tsv_aligned_codes demo_externals ''test.tsv'' = Inr demo_data"
    by (simp_all add: demo_bogus_opt_def demo_opt_def demo_externals_fields)
  from unrecognised_diffusion_type_is_deferred [OF a b c d, of demo_net demo_env]
  have e: "call_diffusion_fn demo_externals (demo_self\<lparr>diffusion_fn := None\<rparr>) 5 [1, 2, 3] ''one'' 5
        = (Inl AttributeError, 5)"
    unfolding demo_bogus_init by simp
  have f: "fst (perform_eval demo_externals (demo_self\<lparr>diffusion_fn := None\<rparr>) demo_world)
        = Inl AttributeError"
    by (simp add: demo_run_simps)
  show ?thesis using a b e f demo_bogus_init by simp
qed

section \<open>A run that fails after seeding\<close>

text \<open>
  Claim C10.  When the directory was made and the projector and the ASR model were
  loaded, so that the run got as far as seeding, and the run then ends in an exception,
  the model under test is left in eval mode and the auxiliary modules stay on the compute
  device.  The generator state is not restored: from every generator state of the caller
  from which the loaders return the same two networks, the run ends in the same state.
\<close>

theorem perform_eval_failure_keeps_eval_state:
  assumes "makedirs_error X (path_join (base_path (self_env self))
                               [''../'', ''audio_eval'', str_int (step (self_env self))]) = None"
    and "load_projector X (rng w) = (Inr loaded_projector, r1)"
    and "load_w2v X r1 = (Inr loaded_w2v, r2)"
    and "perform_eval X self w = (Inl e, self', w')"
  shows "\<not> net_training (model self')
       \<and> local_modules self' = modules_to (device (self_env self)) (local_modules self)
       \<and> (\<forall>k md. local_modules self' k = Some md \<longrightarrow> net_device md = device (self_env self))
       \<and> (\<forall>r0 q1 q2. load_projector X r0 = (Inr loaded_projector, q1)
                      \<and> load_w2v X q1 = (Inr loaded_w2v, q2)
              \<longrightarrow> perform_eval X self (w\<lparr>rng := r0\<rparr>) = (Inl e, self', w'))"
proof -
  have first: "\<not> net_training (model self')
       \<and> local_modules self' = modules_to (device (self_env self)) (local_modules self)
       \<and> (\<forall>k md. local_modules self' k = Some md \<longrightarrow> net_device md = device (self_env self))"
    using assms unfolding perform_eval_def Let_def
    by (auto simp: modules_to_def split: sum.splits prod.splits)
  have same: "perform_eval X self (w\<lparr>rng := r0\<rparr>) = (Inl e, self', w')"
    if q1: "load_projector X r0 = (Inr loaded_projector, q1)"
      and q2: "load_w2v X q1 = (Inr loaded_w2v, q2)" for r0 q1 q2
    using assms unfolding perform_eval_def Let_def
    by (auto simp: q1 q2 split: sum.splits prod.splits)
  show ?thesis
    using first same by blast
qed

lemma demo_failing_run:
  "perform_eval demo_failing_externals demo_vocoder_self demo_world =
     (Inl (ExternalError ''disk full''),
      demo_vocoder_self\<lparr>local_modules := modules_to ''cuda'' (local_modules demo_vocoder_self),
                         model := demo_net\<lparr>net_training := False\<rparr>\<rparr>,
      demo_world\<lparr>made_dirs := [''/tmp/run/../audio_eval/558''], rng := 6\<rparr>)"
  by (simp add: demo_run_simps demo_failing_externals_def demo_vocoder_self_def
      perform_diffusion_vocoder_def)

theorem perform_eval_failure_keeps_eval_state_witness:
  "fst (perform_eval demo_failing_externals demo_vocoder_self demo_world)
     = Inl (ExternalError ''disk full'')
   \<and> \<not> net_training (model (fst (snd
         (perform_eval demo_failing_externals demo_vocoder_self demo_world))))
   \<and> map_option net_device (local_modules (fst (snd
         (perform_eval demo_failing_externals demo_vocoder_self demo_world))) ''dvae'')
       = Some ''cuda''
   \<and> rng (snd (snd (perform_eval demo_failing_externals demo_vocoder_self demo_world))) = 6
   \<and> rng demo_world = 1234
   \<and> rng (snd (snd (perform_eval demo_failing_externals demo_vocoder_self
                       (demo_world\<lparr>rng := 77\<rparr>)))) = 6"
proof -
  have a: "makedirs_error demo_failing_externals
             (path_join (base_path (self_env demo_vocoder_self))
                [''../'', ''audio_eval'', str_int (step (self_env demo_vocoder_self))]) = None"
    and b: "load_projector demo_failing_externals (rng demo_world) = (Inr demo_net, 1235)"
    and c: "load_w2v demo_failing_externals 1235 = (Inr demo_net, 1236)"
    and d: "load_projector demo_failing_externals 77 = (Inr demo_net, 78)"
    and e: "load_w2v demo_failing_externals 78 = (Inr demo_net, 79)"
    by (simp_all add: demo_failing_externals_def demo_externals_fields load_projector_def
        load_w2v_def demo_world_def)
  note t = perform_eval_failure_keeps_eval_state [OF a b c demo_failing_run]
  from t d e have "perform_eval demo_failing_externals demo_vocoder_self (demo_world\<lparr>rng := 77\<rparr>)
      = (Inl (ExternalError ''disk full''),
      demo_vocoder_self\<lparr>local_modules := modules_to ''cuda'' (local_modules demo_vocoder_self),
                         model := demo_net\<lparr>net_training := False\<rparr>\<rparr>,
      demo_world\<lparr>made_dirs := [''/tmp/run/../audio_eval/558''], rng := 6\<rparr>)"
    by blast
  then show ?thesis
    unfolding demo_failing_run
    by (simp add: demo_world_def demo_vocoder_self_def modules_to_def demo_net_def)
qed

section \<open>Indexing in a distributed run\<close>
























end
